theory Spec2Isabelle
  imports Main "HOL-Library.Sublist"
begin

section \<open>Python values and the output of a run\<close>

text \<open>
  The two scripts handle JSON documents decoded by \<^verbatim>\<open>response.json()\<close>, that is, Python
  values built from \<^verbatim>\<open>None\<close>, booleans, numbers, strings, lists and dictionaries. A
  dictionary is kept as the list of the members of the JSON object in document order; a
  repeated key takes its last value, as \<^verbatim>\<open>json.loads\<close> does. Numbers are integers: a
  number with a fraction behaves like an integer in every operation the scripts apply
  (it is true when it is not zero, and it has no \<^verbatim>\<open>.get\<close>, no \<^verbatim>\<open>len\<close> and no iteration).
\<close>

datatype json =
    JNull
  | JBool bool
  | JNum int
  | JStr string
  | JArr "json list"
  | JObj "(string \<times> json) list"

text \<open>\<^verbatim>\<open>bool(v)\<close>, the test behind \<^verbatim>\<open>if v:\<close> and \<^verbatim>\<open>if not v:\<close>.\<close>

fun truthy :: "json \<Rightarrow> bool" where
  "truthy JNull = False"
| "truthy (JBool b) = b"
| "truthy (JNum n) = (n \<noteq> 0)"
| "truthy (JStr s) = (s \<noteq> [])"
| "truthy (JArr xs) = (xs \<noteq> [])"
| "truthy (JObj kvs) = (kvs \<noteq> [])"

text \<open>
  \<^verbatim>\<open>v.get(key, default)\<close> exists on dictionaries only: on any other value the attribute
  lookup raises \<^verbatim>\<open>AttributeError\<close>. \<open>has_get\<close> says whether the call is possible and
  \<open>dict_get\<close> is its result when it is.
\<close>

fun has_get :: "json \<Rightarrow> bool" where
  "has_get (JObj kvs) = True"
| "has_get v = False"

fun dict_get :: "json \<Rightarrow> string \<Rightarrow> json \<Rightarrow> json" where
  "dict_get (JObj kvs) k d = (case map_of (rev kvs) k of Some v \<Rightarrow> v | None \<Rightarrow> d)"
| "dict_get v k d = d"

text \<open>
  \<^verbatim>\<open>for x in v\<close>: the elements of a list, the keys of a dictionary (each once, in the
  order of first appearance), the characters of a string; \<^verbatim>\<open>TypeError\<close> (\<open>None\<close> here)
  on anything else. \<^verbatim>\<open>len(v)\<close> is defined on the same values and counts what the
  iteration yields.
\<close>

fun py_iter :: "json \<Rightarrow> json list option" where
  "py_iter (JArr xs) = Some xs"
| "py_iter (JObj kvs) = Some (map JStr (rev (remdups (rev (map fst kvs)))))"
| "py_iter (JStr s) = Some (map (\<lambda>c. JStr [c]) s)"
| "py_iter v = None"

definition py_len :: "json \<Rightarrow> int option" where
  "py_len v = map_option (\<lambda>xs. int (length xs)) (py_iter v)"

subsection \<open>The requests library\<close>

text \<open>
  A formatted string \<^verbatim>\<open>f"...{v}..."\<close> is the list of its pieces: literal text, the
  \<^verbatim>\<open>str()\<close> of a Python value, or the \<^verbatim>\<open>str()\<close> of a caught exception.
\<close>

record response =
  status_code :: int
  text_body :: string
  json_body :: "json option"

text \<open>
  \<open>text_body\<close> is \<^verbatim>\<open>response.text\<close>; \<open>json_body\<close> is what \<^verbatim>\<open>response.json()\<close> decodes,
  \<open>None\<close> when the body is not a JSON document.
\<close>

datatype request_exception =
    TransportError string "response option"
  | HTTPError response
  | JSONDecodeError response

datatype frag = Lit string | Val json | Exc request_exception

type_synonym fstring = "frag list"

datatype verb = GET | POST | DELETE

record request =
  verb :: verb
  url :: fstring
  headers :: "(string \<times> string) list"
  params :: "(string \<times> json) list"
  data :: "(string \<times> json) list"
  timeout :: "nat option"

text \<open>
  What \<^verbatim>\<open>requests.get/post/delete\<close> does with a request: it raises a
  \<^verbatim>\<open>RequestException\<close> of the transport (connection refused, timeout, too many
  redirects, ...), given here by its message and the response it carries, if any, or it
  returns a response.
\<close>

datatype reply = Fails string "response option" | Responds response

text \<open>
  \<^verbatim>\<open>response.raise_for_status()\<close> raises \<^verbatim>\<open>HTTPError\<close> for the client and server error
  statuses, 400 to 599, and for no other status.
\<close>

definition raise_for_status :: "response \<Rightarrow> request_exception option" where
  "raise_for_status r =
     (if 400 \<le> status_code r \<and> status_code r < 600 then Some (HTTPError r) else None)"

text \<open>
  \<^verbatim>\<open>response.json()\<close> raises \<^verbatim>\<open>requests.exceptions.JSONDecodeError\<close>, a
  \<^verbatim>\<open>RequestException\<close> (requests 2.27 and later), when the body does not decode.
\<close>

definition response_json :: "response \<Rightarrow> request_exception + json" where
  "response_json r =
     (case json_body r of None \<Rightarrow> Inl (JSONDecodeError r) | Some j \<Rightarrow> Inr j)"

text \<open>
  \<^verbatim>\<open>e.response\<close>: the \<^verbatim>\<open>HTTPError\<close> of \<^verbatim>\<open>raise_for_status\<close> carries the response; an
  exception of the transport carries one or not (\<^verbatim>\<open>TooManyRedirects\<close> does, a refused
  connection does not); the decoding error is raised without one.
\<close>

fun e_response :: "request_exception \<Rightarrow> response option" where
  "e_response (HTTPError r) = Some r"
| "e_response (TransportError m r) = r"
| "e_response (JSONDecodeError r) = None"

text \<open>
  A run is observed through its trace: every \<^verbatim>\<open>print\<close> to standard output or standard
  error and every HTTP call with the reply it got, in order.
\<close>

datatype event = Stdout fstring | Stderr fstring | Http request reply

type_synonym trace = "event list"

fun http_call :: "event \<Rightarrow> (request \<times> reply) option" where
  "http_call (Http q r) = Some (q, r)"
| "http_call e = None"

definition http_calls :: "trace \<Rightarrow> (request \<times> reply) list" where
  "http_calls s = List.map_filter http_call s"

definition http_requests :: "trace \<Rightarrow> request list" where
  "http_requests s = map fst (http_calls s)"

text \<open>
  The remote service is any function from the number of calls made so far and the
  request to a reply: two equal requests of one run may get different replies.
\<close>

type_synonym server = "nat \<Rightarrow> request \<Rightarrow> reply"

definition send :: "server \<Rightarrow> request \<Rightarrow> trace \<Rightarrow> reply \<times> trace" where
  "send srv q s = (let r = srv (length (http_calls s)) q in (r, s @ [Http q r]))"

text \<open>
  A function of the scripts either returns or is left by \<^verbatim>\<open>sys.exit(n)\<close> or by an
  exception nobody catches (the traceback the interpreter then prints is not part of the
  trace).
\<close>

datatype abort = SystemExit int | Uncaught string

text \<open>The exit status of the process: 0 when \<^verbatim>\<open>main\<close> returns.\<close>

fun exit_status :: "abort + unit \<Rightarrow> int" where
  "exit_status (Inr u) = 0"
| "exit_status (Inl (SystemExit n)) = n"
| "exit_status (Inl (Uncaught e)) = 1"

section \<open>What the two scripts share\<close>

definition MONZO_API_BASE :: string where
  "MONZO_API_BASE = ''https://api.monzo.com''"

definition REQUEST_TIMEOUT :: nat where
  "REQUEST_TIMEOUT = 30"

definition bearer :: "string \<Rightarrow> (string \<times> string) list" where
  "bearer access_token = [(''Authorization'', ''Bearer '' @ access_token)]"

definition remediation :: trace where
  "remediation =
     [Stderr [Lit ''Error: MONZO_ACCESS_TOKEN environment variable is not set''],
      Stderr [Lit (CHR 0x0A # ''Please set your Monzo access token:'')],
      Stderr [Lit ''  export MONZO_ACCESS_TOKEN=your_token_here'']]"

text \<open>
  \<^verbatim>\<open>get_access_token\<close>, the same in both scripts; \<open>env\<close> is
  \<^verbatim>\<open>os.environ.get("MONZO_ACCESS_TOKEN")\<close>.
\<close>

definition get_access_token :: "string option \<Rightarrow> trace \<Rightarrow> (abort + string) \<times> trace" where
  "get_access_token env s =
     (case env of
        None \<Rightarrow> (Inl (SystemExit 1), s @ remediation)
      | Some token \<Rightarrow>
          if token = [] then (Inl (SystemExit 1), s @ remediation) else (Inr token, s))"

text \<open>
  The body of the \<^verbatim>\<open>try\<close> in \<^verbatim>\<open>list_accounts\<close>, \<^verbatim>\<open>list_webhooks\<close> and
  \<^verbatim>\<open>register_webhook\<close> after the call: \<^verbatim>\<open>raise_for_status()\<close>, then \<^verbatim>\<open>json()\<close>.
\<close>

definition checked_json :: "reply \<Rightarrow> request_exception + json" where
  "checked_json r =
     (case r of
        Fails m ro \<Rightarrow> Inl (TransportError m ro)
      | Responds resp \<Rightarrow>
          (case raise_for_status resp of Some e \<Rightarrow> Inl e | None \<Rightarrow> response_json resp))"

text \<open>
  \<^verbatim>\<open>list_accounts\<close>: the deletion script calls without a timeout, the registration
  script with \<^verbatim>\<open>timeout=REQUEST_TIMEOUT\<close>; nothing else differs.
\<close>

definition accounts_request :: "nat option \<Rightarrow> string \<Rightarrow> request" where
  "accounts_request tmo access_token =
     \<lparr>verb = GET, url = [Lit (MONZO_API_BASE @ ''/accounts'')], headers = bearer access_token,
      params = [], data = [], timeout = tmo\<rparr>"

definition list_accounts ::
  "nat option \<Rightarrow> server \<Rightarrow> string \<Rightarrow> trace \<Rightarrow> (abort + json) \<times> trace" where
  "list_accounts tmo srv access_token s =
     (case send srv (accounts_request tmo access_token) s of
        (r, s1) \<Rightarrow>
          (case checked_json r of
             Inl e \<Rightarrow> (Inl (SystemExit 1), s1 @ [Stderr [Lit ''Error listing accounts: '', Exc e]])
           | Inr d \<Rightarrow>
               if has_get d then (Inr (dict_get d ''accounts'' (JArr [])), s1)
               else (Inl (Uncaught ''AttributeError''), s1)))"

definition rule50 :: string where
  "rule50 = replicate 50 CHR ''=''"

definition check_mark :: string where
  "check_mark = [CHR 0xE2, CHR 0x9C, CHR 0x93]"

definition cross_mark :: string where
  "cross_mark = [CHR 0xE2, CHR 0x9C, CHR 0x97]"

section \<open>delete\_webhooks.py\<close>

definition webhooks_request :: "string \<Rightarrow> json \<Rightarrow> request" where
  "webhooks_request access_token account_id =
     \<lparr>verb = GET, url = [Lit (MONZO_API_BASE @ ''/webhooks'')], headers = bearer access_token,
      params = [(''account_id'', account_id)], data = [], timeout = None\<rparr>"

definition list_webhooks :: "server \<Rightarrow> string \<Rightarrow> json \<Rightarrow> trace \<Rightarrow> (abort + json) \<times> trace" where
  "list_webhooks srv access_token account_id s =
     (case send srv (webhooks_request access_token account_id) s of
        (r, s1) \<Rightarrow>
          (case checked_json r of
             Inl e \<Rightarrow>
               (Inr (JArr []),
                s1 @ [Stderr [Lit ''Error listing webhooks for account '', Val account_id,
                              Lit '': '', Exc e]])
           | Inr d \<Rightarrow>
               if has_get d then (Inr (dict_get d ''webhooks'' (JArr [])), s1)
               else (Inl (Uncaught ''AttributeError''), s1)))"

definition delete_request :: "string \<Rightarrow> json \<Rightarrow> request" where
  "delete_request access_token webhook_id =
     \<lparr>verb = DELETE, url = [Lit (MONZO_API_BASE @ ''/webhooks/''), Val webhook_id],
      headers = bearer access_token, params = [], data = [], timeout = None\<rparr>"

text \<open>The body of the \<^verbatim>\<open>try\<close> in \<^verbatim>\<open>delete_webhook\<close>: only \<^verbatim>\<open>raise_for_status()\<close>.\<close>

definition checked :: "reply \<Rightarrow> request_exception option" where
  "checked r = (case r of Fails m ro \<Rightarrow> Some (TransportError m ro) | Responds resp \<Rightarrow> raise_for_status resp)"

definition delete_webhook :: "server \<Rightarrow> string \<Rightarrow> json \<Rightarrow> trace \<Rightarrow> bool \<times> trace" where
  "delete_webhook srv access_token webhook_id s =
     (case send srv (delete_request access_token webhook_id) s of
        (r, s1) \<Rightarrow>
          (case checked r of
             None \<Rightarrow> (True, s1)
           | Some e \<Rightarrow>
               (False, s1 @ [Stderr [Lit ''Error deleting webhook '', Val webhook_id,
                                     Lit '': '', Exc e]])))"

text \<open>The inner loop of \<^verbatim>\<open>main\<close>, \<^verbatim>\<open>for webhook in webhooks\<close>, with its counter.\<close>

fun delete_each :: "server \<Rightarrow> string \<Rightarrow> json list \<Rightarrow> int \<Rightarrow> trace \<Rightarrow> (abort + int) \<times> trace" where
  "delete_each srv access_token [] deleted_webhooks s = (Inr deleted_webhooks, s)"
| "delete_each srv access_token (webhook # rest) deleted_webhooks s =
     (if \<not> has_get webhook then (Inl (Uncaught ''AttributeError''), s)
      else
        let webhook_id = dict_get webhook ''id'' JNull;
            webhook_url = dict_get webhook ''url'' (JStr ''Unknown URL'');
            s1 = s @ [Stdout [Lit ''    Deleting webhook: '', Val webhook_id],
                      Stdout [Lit ''      URL: '', Val webhook_url]]
        in (case delete_webhook srv access_token webhook_id s1 of
              (True, s2) \<Rightarrow>
                delete_each srv access_token rest (deleted_webhooks + 1)
                  (s2 @ [Stdout [Lit (''      '' @ check_mark @ '' Successfully deleted'')]])
            | (False, s2) \<Rightarrow>
                delete_each srv access_token rest deleted_webhooks
                  (s2 @ [Stdout [Lit (''      '' @ cross_mark @ '' Failed to delete'')]])))"

text \<open>
  The outer loop, \<^verbatim>\<open>for account in accounts\<close>, with the pair of counters
  \<^verbatim>\<open>(total_webhooks, deleted_webhooks)\<close>.
\<close>

fun delete_accounts ::
  "server \<Rightarrow> string \<Rightarrow> json list \<Rightarrow> int \<times> int \<Rightarrow> trace \<Rightarrow> (abort + int \<times> int) \<times> trace" where
  "delete_accounts srv access_token [] counters s = (Inr counters, s)"
| "delete_accounts srv access_token (account # rest) (total_webhooks, deleted_webhooks) s =
     (if \<not> has_get account then (Inl (Uncaught ''AttributeError''), s)
      else
        let account_id = dict_get account ''id'' JNull;
            account_desc = dict_get account ''description'' (JStr ''Unknown'');
            s1 = s @ [Stdout [Lit (CHR 0x0A # ''Processing account: ''), Val account_desc,
                              Lit '' ('', Val account_id, Lit '')'']]
        in (case list_webhooks srv access_token account_id s1 of
              (Inl a, s2) \<Rightarrow> (Inl a, s2)
            | (Inr webhooks, s2) \<Rightarrow>
                if \<not> truthy webhooks then
                  delete_accounts srv access_token rest (total_webhooks, deleted_webhooks)
                    (s2 @ [Stdout [Lit ''  No webhooks found for this account'']])
                else
                  (case py_iter webhooks of
                     None \<Rightarrow> (Inl (Uncaught ''TypeError''), s2)
                   | Some ws \<Rightarrow>
                       (case delete_each srv access_token ws deleted_webhooks
                               (s2 @ [Stdout [Lit ''  Found '', Val (JNum (int (length ws))),
                                              Lit '' webhook(s)'']]) of
                          (Inl a, s3) \<Rightarrow> (Inl a, s3)
                        | (Inr deleted', s3) \<Rightarrow>
                            delete_accounts srv access_token rest
                              (total_webhooks + int (length ws), deleted') s3))))"

definition delete_summary :: "int \<Rightarrow> int \<Rightarrow> trace" where
  "delete_summary total_webhooks deleted_webhooks =
     [Stdout [Lit (CHR 0x0A # rule50)],
      Stdout [Lit ''Summary:''],
      Stdout [Lit ''  Total webhooks found: '', Val (JNum total_webhooks)],
      Stdout [Lit ''  Successfully deleted: '', Val (JNum deleted_webhooks)],
      Stdout [Lit ''  Failed to delete: '', Val (JNum (total_webhooks - deleted_webhooks))],
      Stdout [Lit rule50]]"

text \<open>\<^verbatim>\<open>main\<close> of delete\_webhooks.py.\<close>

definition delete_main :: "string option \<Rightarrow> server \<Rightarrow> (abort + unit) \<times> trace" where
  "delete_main env srv =
     (case get_access_token env
             [Stdout [Lit ''Monzo Webhook Deletion Tool''], Stdout [Lit rule50]] of
        (Inl a, s1) \<Rightarrow> (Inl a, s1)
      | (Inr access_token, s1) \<Rightarrow>
          (case list_accounts None srv access_token
                  (s1 @ [Stdout [Lit (CHR 0x0A # ''Fetching accounts...'')]]) of
             (Inl a, s2) \<Rightarrow> (Inl a, s2)
           | (Inr accounts, s2) \<Rightarrow>
               if \<not> truthy accounts then (Inr (), s2 @ [Stdout [Lit ''No accounts found.'']])
               else
                 (case py_iter accounts of
                    None \<Rightarrow> (Inl (Uncaught ''TypeError''), s2)
                  | Some accs \<Rightarrow>
                      (case delete_accounts srv access_token accs (0, 0)
                              (s2 @ [Stdout [Lit ''Found '', Val (JNum (int (length accs))),
                                             Lit '' account(s)'']]) of
                         (Inl a, s3) \<Rightarrow> (Inl a, s3)
                       | (Inr (total_webhooks, deleted_webhooks), s3) \<Rightarrow>
                           (Inr (), s3 @ delete_summary total_webhooks deleted_webhooks)))))"

section \<open>register\_webhooks.py\<close>

subsection \<open>The library's URL parser\<close>

text \<open>
  \<^verbatim>\<open>urlparse(url).netloc\<close> as CPython's \<^verbatim>\<open>urllib.parse.urlsplit\<close> computes it: leading
  control characters and spaces are stripped, tabs and line breaks are removed, a scheme
  (a letter, then letters, digits, \<^verbatim>\<open>+\<close>, \<^verbatim>\<open>-\<close>, \<^verbatim>\<open>.\<close>, up to the first colon) is split off,
  and when \<^verbatim>\<open>//\<close> follows, the network location runs to the next \<^verbatim>\<open>/\<close>, \<^verbatim>\<open>?\<close> or \<^verbatim>\<open>#\<close>.
  A network location with one square bracket but not the other raises \<^verbatim>\<open>ValueError\<close>
  (\<open>Inl\<close> with the message).

  The library then checks a network location that has a bracketed host (the host must be
  an IP literal) or a character outside ASCII (its NFKC form must not bring in a
  separator), and raises \<^verbatim>\<open>ValueError\<close> when the check fails. These checks differ between
  versions of the library and are no code of the scripts: they are the parameter
  \<open>host_checks\<close>, which gives for a network location the message of the error they
  raise, if any. The library runs them on no other network location.
\<close>

definition non_ascii :: "char \<Rightarrow> bool" where
  "non_ascii c = (128 \<le> (of_char c :: nat))"

definition is_alpha :: "char \<Rightarrow> bool" where
  "is_alpha c =
     (let n = (of_char c :: nat) in (65 \<le> n \<and> n \<le> 90) \<or> (97 \<le> n \<and> n \<le> 122))"

definition scheme_char :: "char \<Rightarrow> bool" where
  "scheme_char c =
     (let n = (of_char c :: nat)
      in is_alpha c \<or> (48 \<le> n \<and> n \<le> 57) \<or> c = CHR ''+'' \<or> c = CHR ''-'' \<or> c = CHR ''.'')"

definition after_scheme :: "string \<Rightarrow> string" where
  "after_scheme u =
     (let pre = takeWhile (\<lambda>c. c \<noteq> CHR '':'') u
      in if CHR '':'' \<in> set u \<and> pre \<noteq> [] \<and> is_alpha (hd u) \<and> list_all scheme_char pre
         then drop (length pre + 1) u else u)"

definition urlparse :: "(string \<Rightarrow> string option) \<Rightarrow> string \<Rightarrow> string + string" where
  "urlparse host_checks webhook_url =
     (let u = filter (\<lambda>c. c \<noteq> CHR 0x09 \<and> c \<noteq> CHR 0x0A \<and> c \<noteq> CHR 0x0D)
                (dropWhile (\<lambda>c. (of_char c :: nat) \<le> 32) webhook_url);
          rest = after_scheme u
      in if take 2 rest = ''//'' then
           (let netloc = takeWhile (\<lambda>c. c \<noteq> CHR ''/'' \<and> c \<noteq> CHR ''?'' \<and> c \<noteq> CHR ''#'')
                           (drop 2 rest)
            in if (CHR ''['' \<in> set netloc) \<noteq> (CHR '']'' \<in> set netloc)
               then Inl ''Invalid IPv6 URL''
               else if CHR ''['' \<in> set netloc \<or> list_ex non_ascii netloc then
                 (case host_checks netloc of Some msg \<Rightarrow> Inl msg | None \<Rightarrow> Inr netloc)
               else Inr netloc)
         else Inr [])"

text \<open>\<^verbatim>\<open>webhook_url.startswith(("http://", "https://"))\<close>\<close>

definition startswith_http :: "string \<Rightarrow> bool" where
  "startswith_http webhook_url = (prefix ''http://'' webhook_url \<or> prefix ''https://'' webhook_url)"

subsection \<open>The script\<close>

definition register_request :: "string \<Rightarrow> json \<Rightarrow> string \<Rightarrow> request" where
  "register_request access_token account_id webhook_url =
     \<lparr>verb = POST, url = [Lit (MONZO_API_BASE @ ''/webhooks'')], headers = bearer access_token,
      params = [], data = [(''account_id'', account_id), (''url'', JStr webhook_url)],
      timeout = Some REQUEST_TIMEOUT\<rparr>"

text \<open>\<^verbatim>\<open>register_webhook\<close>: Python's \<^verbatim>\<open>None\<close> is \<open>JNull\<close>.\<close>

definition register_webhook :: "server \<Rightarrow> string \<Rightarrow> json \<Rightarrow> string \<Rightarrow> trace \<Rightarrow> json \<times> trace" where
  "register_webhook srv access_token account_id webhook_url s =
     (case send srv (register_request access_token account_id webhook_url) s of
        (r, s1) \<Rightarrow>
          (case checked_json r of
             Inr j \<Rightarrow> (j, s1)
           | Inl e \<Rightarrow>
               (let s2 = s1 @ [Stderr [Lit ''Error registering webhook for account '',
                                       Val account_id, Lit '': '', Exc e]]
                in (case e_response e of
                      None \<Rightarrow> (JNull, s2)
                    | Some resp \<Rightarrow>
                        (JNull, s2 @ [Stderr [Lit ''Response: '', Lit (text_body resp)]])))))"

text \<open>
  The loop of \<^verbatim>\<open>main\<close>, \<^verbatim>\<open>for account in accounts\<close>, with the pair of counters
  \<^verbatim>\<open>(registered_count, failed_count)\<close>.
\<close>

fun register_accounts ::
  "server \<Rightarrow> string \<Rightarrow> string \<Rightarrow> json list \<Rightarrow> int \<times> int \<Rightarrow> trace
     \<Rightarrow> (abort + int \<times> int) \<times> trace" where
  "register_accounts srv access_token webhook_url [] counters s = (Inr counters, s)"
| "register_accounts srv access_token webhook_url (account # rest)
       (registered_count, failed_count) s =
     (if \<not> has_get account then (Inl (Uncaught ''AttributeError''), s)
      else
        let account_id = dict_get account ''id'' JNull;
            account_desc = dict_get account ''description'' (JStr ''Unknown'');
            s1 = s @ [Stdout [Lit (CHR 0x0A # ''Processing account: ''), Val account_desc,
                              Lit '' ('', Val account_id, Lit '')'']]
        in (case register_webhook srv access_token account_id webhook_url s1 of
              (result, s2) \<Rightarrow>
                if truthy result then
                  (if \<not> has_get result then (Inl (Uncaught ''AttributeError''), s2)
                   else if \<not> has_get (dict_get result ''webhook'' (JObj []))
                   then (Inl (Uncaught ''AttributeError''), s2)
                   else
                     let webhook_id =
                           dict_get (dict_get result ''webhook'' (JObj [])) ''id'' (JStr ''Unknown'')
                     in register_accounts srv access_token webhook_url rest
                          (registered_count + 1, failed_count)
                          (s2 @ [Stdout [Lit (''  '' @ check_mark @ '' Successfully registered webhook'')],
                                 Stdout [Lit ''    Webhook ID: '', Val webhook_id]]))
                else
                  register_accounts srv access_token webhook_url rest
                    (registered_count, failed_count + 1)
                    (s2 @ [Stdout [Lit (''  '' @ cross_mark @ '' Failed to register webhook'')]])))"

definition register_summary :: "int \<Rightarrow> int \<Rightarrow> trace" where
  "register_summary registered_count failed_count =
     [Stdout [Lit (CHR 0x0A # rule50)],
      Stdout [Lit ''Summary:''],
      Stdout [Lit ''  Successfully registered: '', Val (JNum registered_count)],
      Stdout [Lit ''  Failed to register: '', Val (JNum failed_count)],
      Stdout [Lit rule50]]"

definition usage :: trace where
  "usage =
     [Stderr [Lit ''Usage: python register_webhooks.py <webhook_url>''],
      Stderr [Lit (CHR 0x0A # ''Example:'')],
      Stderr [Lit ''  python register_webhooks.py https://example.com/webhook'']]"

text \<open>
  What \<^verbatim>\<open>main\<close> of register\_webhooks.py does once the argument is validated.
\<close>

definition register_run :: "string \<Rightarrow> string option \<Rightarrow> server \<Rightarrow> (abort + unit) \<times> trace" where
  "register_run webhook_url env srv =
     (case get_access_token env
             [Stdout [Lit ''Monzo Webhook Registration Tool''], Stdout [Lit rule50],
              Stdout [Lit ''Webhook URL: '', Lit webhook_url]] of
        (Inl a, s1) \<Rightarrow> (Inl a, s1)
      | (Inr access_token, s1) \<Rightarrow>
          (case list_accounts (Some REQUEST_TIMEOUT) srv access_token
                  (s1 @ [Stdout [Lit (CHR 0x0A # ''Fetching accounts...'')]]) of
             (Inl a, s2) \<Rightarrow> (Inl a, s2)
           | (Inr accounts, s2) \<Rightarrow>
               if \<not> truthy accounts then (Inr (), s2 @ [Stdout [Lit ''No accounts found.'']])
               else
                 (case py_iter accounts of
                    None \<Rightarrow> (Inl (Uncaught ''TypeError''), s2)
                  | Some accs \<Rightarrow>
                      (case register_accounts srv access_token webhook_url accs (0, 0)
                              (s2 @ [Stdout [Lit ''Found '', Val (JNum (int (length accs))),
                                             Lit '' account(s)'']]) of
                         (Inl a, s3) \<Rightarrow> (Inl a, s3)
                       | (Inr (registered_count, failed_count), s3) \<Rightarrow>
                           (Inr (), s3 @ register_summary registered_count failed_count)))))"

text \<open>
  \<^verbatim>\<open>main\<close> of register\_webhooks.py; \<open>argv\<close> is \<^verbatim>\<open>sys.argv\<close> and \<open>host_checks\<close> the
  checks of the installed URL parser.
\<close>

definition register_main ::
  "(string \<Rightarrow> string option) \<Rightarrow> string list \<Rightarrow> string option \<Rightarrow> server
     \<Rightarrow> (abort + unit) \<times> trace" where
  "register_main host_checks argv env srv =
     (if length argv \<noteq> 2 then (Inl (SystemExit 1), usage)
      else
        let webhook_url = argv ! 1
        in if \<not> startswith_http webhook_url then
             (Inl (SystemExit 1),
              [Stderr [Lit ''Error: Webhook URL must start with http:// or https://'']])
           else
             (case urlparse host_checks webhook_url of
                Inl msg \<Rightarrow>
                  (Inl (SystemExit 1), [Stderr [Lit ''Error: Invalid webhook URL: '', Lit msg]])
              | Inr netloc \<Rightarrow>
                  if netloc = [] then
                    (Inl (SystemExit 1), [Stderr [Lit ''Error: Invalid webhook URL format'']])
                  else register_run webhook_url env srv))"

section \<open>Reading a trace\<close>

text \<open>
  The values a run printed on standard output under a label, that is by
  \<^verbatim>\<open>print(f"<label>{v}")\<close>, in order.
\<close>

fun labelled :: "string \<Rightarrow> event \<Rightarrow> json option" where
  "labelled l (Stdout [Lit l', Val v]) = (if l' = l then Some v else None)"
| "labelled l e = None"

definition reported :: "string \<Rightarrow> trace \<Rightarrow> json list" where
  "reported l s = List.map_filter (labelled l) s"

fun is_stderr :: "event \<Rightarrow> bool" where
  "is_stderr (Stderr m) = True"
| "is_stderr e = False"

text \<open>
  The deletion attempts of a run, and those that failed: the call raised in the
  transport, or it was answered with a client or server error status (400 to 599).
\<close>

fun failed_reply :: "reply \<Rightarrow> bool" where
  "failed_reply (Fails m ro) = True"
| "failed_reply (Responds resp) = (400 \<le> status_code resp \<and> status_code resp < 600)"

definition deletions :: "trace \<Rightarrow> (request \<times> reply) list" where
  "deletions s = filter (\<lambda>(q, r). verb q = DELETE) (http_calls s)"

definition failed_deletions :: "trace \<Rightarrow> (request \<times> reply) list" where
  "failed_deletions s = filter (\<lambda>(q, r). failed_reply r) (deletions s)"

text \<open>
  The argument check at the head of \<^verbatim>\<open>main\<close> of register\_webhooks.py passes: one
  argument, starting with \<^verbatim>\<open>http://\<close> or \<^verbatim>\<open>https://\<close>, that the URL parser (with its
  checks \<open>host_checks\<close>) parses without error to a network location which is not empty.
\<close>

definition accepts :: "(string \<Rightarrow> string option) \<Rightarrow> string list \<Rightarrow> bool" where
  "accepts host_checks argv =
     (length argv = 2 \<and> startswith_http (argv ! 1) \<and>
      (case urlparse host_checks (argv ! 1) of Inl msg \<Rightarrow> False | Inr netloc \<Rightarrow> netloc \<noteq> []))"

text \<open>The status of a reply, and the exception a failing reply raises in the caller.\<close>

fun status_of :: "reply \<Rightarrow> int option" where
  "status_of (Responds r) = Some (status_code r)"
| "status_of (Fails m ro) = None"

fun raised :: "reply \<Rightarrow> request_exception" where
  "raised (Fails m ro) = TransportError m ro"
| "raised (Responds resp) = HTTPError resp"

section \<open>Example services\<close>

text \<open>
  \<open>demo_server\<close> serves a deletion run: three accounts; the first has two webhooks, and
  deleting the first of them fails with status 500; listing the webhooks of the second
  account fails in the transport; the third has one webhook. \<open>demo_registrar\<close> serves a
  registration run over the same accounts: the first registration succeeds, the second
  gets status 200 with an empty object, the third is refused with status 403.
  \<open>always r\<close> answers every request with \<open>r\<close>. \<open>refuse_brackets\<close> stands for the checks
  of the URL parser: it refuses every network location it is asked about.
\<close>

definition refuse_brackets :: "string \<Rightarrow> string option" where
  "refuse_brackets netloc = Some ''does not appear to be an IPv4 or IPv6 address''"

definition demo_accounts :: "json list" where
  "demo_accounts =
     [JObj [(''id'', JStr ''acc_1''), (''description'', JStr ''Current'')],
      JObj [(''id'', JStr ''acc_2'')],
      JObj [(''id'', JStr ''acc_3''), (''description'', JStr ''Joint'')]]"

definition demo_webhooks :: "json list" where
  "demo_webhooks =
     [JObj [(''id'', JStr ''wh_1''), (''url'', JStr ''https://a.example/hook'')],
      JObj [(''id'', JStr ''wh_2''), (''url'', JStr ''https://b.example/hook'')]]"

definition ok_response :: "json \<Rightarrow> reply" where
  "ok_response j = Responds \<lparr>status_code = 200, text_body = ''(json)'', json_body = Some j\<rparr>"

definition json_response :: "int \<Rightarrow> json \<Rightarrow> reply" where
  "json_response c j = Responds \<lparr>status_code = c, text_body = ''(json)'', json_body = Some j\<rparr>"

definition always :: "reply \<Rightarrow> server" where
  "always r n q = r"

definition demo_server :: server where
  "demo_server n q =
     (if n = 0 then ok_response (JObj [(''accounts'', JArr demo_accounts)])
      else if n = 1 then ok_response (JObj [(''webhooks'', JArr demo_webhooks)])
      else if n = 2 then
        Responds \<lparr>status_code = 500, text_body = ''internal error'', json_body = None\<rparr>
      else if n = 3 then ok_response (JObj [])
      else if n = 4 then Fails ''connection reset'' None
      else if n = 5 then ok_response (JObj [(''webhooks'', JArr [JObj [(''id'', JStr ''wh_3'')]])])
      else ok_response (JObj []))"

definition demo_registrar :: server where
  "demo_registrar n q =
     (if n = 0 then ok_response (JObj [(''accounts'', JArr demo_accounts)])
      else if n = 1 then
        ok_response (JObj [(''webhook'',
          JObj [(''id'', JStr ''wh_9''), (''account_id'', JStr ''acc_1''),
                (''url'', JStr ''https://example.com/webhook'')])])
      else if n = 2 then ok_response (JObj [])
      else Responds \<lparr>status_code = 403, text_body = ''forbidden'', json_body = None\<rparr>)"

definition demo_argv :: "string list" where
  "demo_argv = [''register_webhooks.py'', ''https://example.com/webhook'']"

section \<open>Traces of the parts of a run\<close>

lemma map_filter_append: "List.map_filter f (xs @ ys) = List.map_filter f xs @ List.map_filter f ys"
  by (simp add: List.map_filter_def)

lemma http_calls_simps [simp]:
  "http_calls [] = []"
  "http_calls (Stdout m # s) = http_calls s"
  "http_calls (Stderr m # s) = http_calls s"
  "http_calls (Http q r # s) = (q, r) # http_calls s"
  "http_calls (s @ s') = http_calls s @ http_calls s'"
  by (simp_all add: http_calls_def List.map_filter_def)

lemma reported_simps [simp]:
  "reported l [] = []"
  "reported l (Stderr m # s) = reported l s"
  "reported l (Http q r # s) = reported l s"
  "reported l (Stdout [] # s) = reported l s"
  "reported l (Stdout [f] # s) = reported l s"
  "reported l (Stdout (f # g # h # fs) # s) = reported l s"
  "reported l (Stdout [Lit l', Val v] # s) = (if l' = l then v # reported l s else reported l s)"
  "reported l (Stdout [Lit l', Lit l''] # s) = reported l s"
  "reported l (s @ s') = reported l s @ reported l s'"
  by (simp_all add: reported_def List.map_filter_def)

lemma deletions_simps [simp]:
  "deletions [] = []"
  "deletions (Stdout m # s) = deletions s"
  "deletions (Stderr m # s) = deletions s"
  "deletions (Http q r # s) = (if verb q = DELETE then (q, r) # deletions s else deletions s)"
  "deletions (s @ s') = deletions s @ deletions s'"
  by (simp_all add: deletions_def)

lemma failed_reply_checked: "failed_reply r \<longleftrightarrow> checked r \<noteq> None"
  by (cases r) (simp_all add: checked_def raise_for_status_def)

lemma failed_deletions_simps [simp]:
  "failed_deletions [] = []"
  "failed_deletions (Stdout m # s) = failed_deletions s"
  "failed_deletions (Stderr m # s) = failed_deletions s"
  "failed_deletions (Http q r # s) =
     (if verb q = DELETE \<and> checked r \<noteq> None then (q, r) # failed_deletions s else failed_deletions s)"
  "failed_deletions (s @ s') = failed_deletions s @ failed_deletions s'"
  by (simp_all add: failed_deletions_def failed_reply_checked)

lemma send_eq:
  "send srv q s = (srv (length (http_calls s)) q, s @ [Http q (srv (length (http_calls s)) q)])"
  by (simp add: send_def Let_def)

lemma verb_requests [simp]:
  "verb (accounts_request tmo tok) = GET"
  "verb (webhooks_request tok a) = GET"
  "verb (delete_request tok w) = DELETE"
  "verb (register_request tok a u) = POST"
  by (simp_all add: accounts_request_def webhooks_request_def delete_request_def register_request_def)

lemma reported_stderr: "list_all is_stderr m \<Longrightarrow> reported l m = []"
proof (induction m)
  case Nil
  then show ?case by simp
next
  case (Cons e m)
  then show ?case by (cases e) simp_all
qed

lemma get_access_token_eq:
  "get_access_token env s =
     (if env = None \<or> env = Some [] then (Inl (SystemExit 1), s @ remediation)
      else (Inr (the env), s))"
  by (simp add: get_access_token_def split: option.splits)

lemma get_access_token_trace:
  "get_access_token env s = (res, s') \<Longrightarrow>
     reported l s' = reported l s \<and> http_calls s' = http_calls s \<and>
     deletions s' = deletions s \<and> failed_deletions s' = failed_deletions s"
  by (auto simp: get_access_token_eq remediation_def split: if_splits)

lemma list_accounts_eq:
  "list_accounts tmo srv tok s =
     (case checked_json (srv (length (http_calls s)) (accounts_request tmo tok)) of
        Inl e \<Rightarrow>
          (Inl (SystemExit 1),
           s @ [Http (accounts_request tmo tok) (srv (length (http_calls s)) (accounts_request tmo tok)),
                Stderr [Lit ''Error listing accounts: '', Exc e]])
      | Inr d \<Rightarrow>
          (if has_get d then Inr (dict_get d ''accounts'' (JArr []))
           else Inl (Uncaught ''AttributeError''),
           s @ [Http (accounts_request tmo tok) (srv (length (http_calls s)) (accounts_request tmo tok))]))"
  by (simp add: list_accounts_def send_eq split: sum.splits)

lemma list_accounts_trace:
  "list_accounts tmo srv tok s = (res, s') \<Longrightarrow>
     reported l s' = reported l s \<and> deletions s' = deletions s \<and>
     failed_deletions s' = failed_deletions s"
  by (auto simp: list_accounts_def send_eq split: sum.splits if_splits)

lemma list_accounts_fst:
  "length (http_calls s) = length (http_calls s') \<Longrightarrow>
     fst (list_accounts tmo srv tok s) = fst (list_accounts tmo srv tok s')"
  by (simp add: list_accounts_def send_eq split: sum.splits)

lemma list_webhooks_eq:
  "list_webhooks srv tok aid s =
     (case checked_json (srv (length (http_calls s)) (webhooks_request tok aid)) of
        Inl e \<Rightarrow>
          (Inr (JArr []),
           s @ [Http (webhooks_request tok aid) (srv (length (http_calls s)) (webhooks_request tok aid)),
                Stderr [Lit ''Error listing webhooks for account '', Val aid, Lit '': '', Exc e]])
      | Inr d \<Rightarrow>
          (if has_get d then Inr (dict_get d ''webhooks'' (JArr []))
           else Inl (Uncaught ''AttributeError''),
           s @ [Http (webhooks_request tok aid) (srv (length (http_calls s)) (webhooks_request tok aid))]))"
  by (simp add: list_webhooks_def send_eq split: sum.splits)

lemma list_webhooks_trace:
  "list_webhooks srv tok aid s = (res, s') \<Longrightarrow>
     reported l s' = reported l s \<and> deletions s' = deletions s \<and>
     failed_deletions s' = failed_deletions s"
  by (auto simp: list_webhooks_def send_eq split: sum.splits if_splits)

lemma delete_webhook_eq:
  "delete_webhook srv tok wid s =
     (checked (srv (length (http_calls s)) (delete_request tok wid)) = None,
      s @ Http (delete_request tok wid) (srv (length (http_calls s)) (delete_request tok wid))
        # (case checked (srv (length (http_calls s)) (delete_request tok wid)) of
             None \<Rightarrow> []
           | Some e \<Rightarrow> [Stderr [Lit ''Error deleting webhook '', Val wid, Lit '': '', Exc e]]))"
  by (simp add: delete_webhook_def send_eq split: option.splits)

lemma delete_each_counts:
  "delete_each srv tok ws d s = (Inr d', s') \<Longrightarrow>
     length (deletions s') = length (deletions s) + length ws \<and>
     int (length (failed_deletions s')) = int (length (failed_deletions s)) + int (length ws) - (d' - d)"
proof (induction ws arbitrary: d s)
  case Nil
  then show ?case by simp
next
  case (Cons w ws)
  show ?case
  proof (cases "checked (srv (length (http_calls s)) (delete_request tok (dict_get w ''id'' JNull)))")
    case None
    with Cons.prems Cons.IH [of "d + 1"] show ?thesis
      by (simp add: delete_webhook_eq Let_def split: if_splits)
  next
    case (Some e)
    with Cons.prems Cons.IH [of d] show ?thesis
      by (simp add: delete_webhook_eq Let_def split: if_splits)
  qed
qed

lemma delete_each_reported:
  "l \<noteq> ''    Deleting webhook: '' \<Longrightarrow> l \<noteq> ''      URL: '' \<Longrightarrow>
   delete_each srv tok ws d s = (res, s') \<Longrightarrow> reported l s' = reported l s"
proof (induction ws arbitrary: d s)
  case Nil
  then show ?case by simp
next
  case (Cons w ws)
  show ?case
  proof (cases "checked (srv (length (http_calls s)) (delete_request tok (dict_get w ''id'' JNull)))")
    case None
    with Cons.prems Cons.IH [of "d + 1"] show ?thesis
      by (simp add: delete_webhook_eq Let_def check_mark_def split: if_splits)
  next
    case (Some e)
    with Cons.prems Cons.IH [of d] show ?thesis
      by (simp add: delete_webhook_eq Let_def cross_mark_def split: if_splits)
  qed
qed

lemma delete_each_total:
  "list_all has_get ws \<Longrightarrow>
     \<exists>d' s'. delete_each srv tok ws d s = (Inr d', s') \<and>
       map fst (deletions s') =
         map fst (deletions s) @ map (\<lambda>w. delete_request tok (dict_get w ''id'' JNull)) ws"
proof (induction ws arbitrary: d s)
  case Nil
  then show ?case by simp
next
  case (Cons w ws)
  then have w: "has_get w" and ws: "list_all has_get ws" by simp_all
  let ?q = "delete_request tok (dict_get w ''id'' JNull)"
  let ?r = "srv (length (http_calls s)) ?q"
  obtain b s2 where dw: "delete_webhook srv tok (dict_get w ''id'' JNull)
      (s @ [Stdout [Lit ''    Deleting webhook: '', Val (dict_get w ''id'' JNull)],
            Stdout [Lit ''      URL: '', Val (dict_get w ''url'' (JStr ''Unknown URL''))]]) = (b, s2)"
    by fastforce
  then have s2: "map fst (deletions s2) = map fst (deletions s) @ [?q]"
    by (auto simp: delete_webhook_eq)
  show ?case
  proof (cases b)
    case True
    from Cons.IH [OF ws, of "d + 1" "s2 @ [Stdout [Lit (''      '' @ check_mark @ '' Successfully deleted'')]]"]
    show ?thesis using w dw True s2 by (simp add: Let_def)
  next
    case False
    from Cons.IH [OF ws, of d "s2 @ [Stdout [Lit (''      '' @ cross_mark @ '' Failed to delete'')]]"]
    show ?thesis using w dw False s2 by (simp add: Let_def)
  qed
qed

lemma delete_accounts_counts:
  "delete_accounts srv tok accs (t, d) s = (Inr (t', d'), s') \<Longrightarrow>
     t' - t = int (length (deletions s')) - int (length (deletions s)) \<and>
     (t' - d') - (t - d) = int (length (failed_deletions s')) - int (length (failed_deletions s))"
proof (induction accs arbitrary: t d s)
  case Nil
  then show ?case by simp
next
  case (Cons a accs)
  then show ?case
    by (auto simp: Let_def split: if_splits prod.splits sum.splits option.splits
          dest!: list_webhooks_trace delete_each_counts Cons.IH)
qed

lemma delete_accounts_reported:
  assumes l: "l \<noteq> ''    Deleting webhook: ''" "l \<noteq> ''      URL: ''"
  shows "delete_accounts srv tok accs c s = (res, s') \<Longrightarrow> reported l s' = reported l s"
proof (induction accs arbitrary: c s)
  case Nil
  then show ?case by simp
next
  case (Cons a accs)
  obtain t d where c: "c = (t, d)" by (cases c)
  note each = delete_each_reported [OF l]
  from Cons.prems show ?case unfolding c
    by (auto simp: Let_def split: if_splits prod.splits sum.splits option.splits
          dest!: list_webhooks_trace [where l = l] each Cons.IH)
qed

lemma delete_main_summary:
  assumes run: "delete_main env srv = (out, tr)"
    and summary: "reported ''  Total webhooks found: '' tr \<noteq> []"
  shows "\<exists>t d. out = Inr () \<and>
           reported ''  Total webhooks found: '' tr = [JNum t] \<and>
           reported ''  Successfully deleted: '' tr = [JNum d] \<and>
           reported ''  Failed to delete: '' tr = [JNum (t - d)] \<and>
           t = int (length (deletions tr)) \<and>
           t - d = int (length (failed_deletions tr))"
proof -
  let ?s0 = "[Stdout [Lit ''Monzo Webhook Deletion Tool''], Stdout [Lit rule50]]"
  obtain r1 s1 where g: "get_access_token env ?s0 = (r1, s1)"
    by fastforce
  have s1: "reported l s1 = []" "deletions s1 = []" "failed_deletions s1 = []" for l
    using get_access_token_trace [OF g, of l] by simp_all
  show ?thesis
  proof (cases r1)
    case (Inl a)
    with run g have "tr = s1" by (simp add: delete_main_def)
    with summary s1 show ?thesis by simp
  next
    case tok: (Inr access_token)
    let ?s1' = "s1 @ [Stdout [Lit (CHR 0x0A # ''Fetching accounts...'')]]"
    obtain r2 s2 where la: "list_accounts None srv access_token ?s1' = (r2, s2)"
      by fastforce
    have s2: "reported l s2 = []" "deletions s2 = []" "failed_deletions s2 = []" for l
      using list_accounts_trace [OF la, of l] s1 by simp_all
    show ?thesis
    proof (cases r2)
      case (Inl a)
      with run g tok la have "tr = s2" by (simp add: delete_main_def)
      with summary s2 show ?thesis by simp
    next
      case accounts: (Inr accounts)
      show ?thesis
      proof (cases "py_iter accounts")
        case None
        with run g tok la accounts have "tr = s2 \<or> tr = s2 @ [Stdout [Lit ''No accounts found.'']]"
          by (auto simp: delete_main_def split: if_splits)
        with summary s2 show ?thesis by auto
      next
        case (Some accs)
        let ?s2' = "s2 @ [Stdout [Lit ''Found '', Val (JNum (int (length accs))), Lit '' account(s)'']]"
        obtain r3 s3 where da: "delete_accounts srv access_token accs (0, 0) ?s2' = (r3, s3)"
          by fastforce
        have s3: "reported ''  Total webhooks found: '' s3 = []"
          "reported ''  Successfully deleted: '' s3 = []"
          "reported ''  Failed to delete: '' s3 = []"
          using s2 delete_accounts_reported [OF _ _ da] by simp_all
        show ?thesis
        proof (cases "truthy accounts")
          case False
          with run g tok la accounts have "tr = s2 @ [Stdout [Lit ''No accounts found.'']]"
            by (simp add: delete_main_def)
          with summary s2 show ?thesis by simp
        next
          case True
          show ?thesis
          proof (cases r3)
            case (Inl a)
            with run g tok la accounts Some da True have "tr = s3"
              by (simp add: delete_main_def)
            with summary s3 show ?thesis by simp
          next
            case (Inr c)
            obtain t d where c: "c = (t, d)" by (cases c)
            from run g tok la accounts Some da True Inr c
            have tr: "tr = s3 @ delete_summary t d" and out: "out = Inr ()"
              by (simp_all add: delete_main_def)
            from delete_accounts_counts [OF da [unfolded Inr c]] s2
            have "t = int (length (deletions s3))"
              "t - d = int (length (failed_deletions s3))" by simp_all
            with tr out s3 show ?thesis
              by (simp add: delete_summary_def)
          qed
        qed
      qed
    qed
  qed
qed

lemma register_webhook_eq:
  "register_webhook srv tok aid u s =
     (case checked_json (srv (length (http_calls s)) (register_request tok aid u)) of
        Inr j \<Rightarrow> (j, s @ [Http (register_request tok aid u)
                              (srv (length (http_calls s)) (register_request tok aid u))])
      | Inl e \<Rightarrow>
          (JNull,
           s @ Http (register_request tok aid u)
                 (srv (length (http_calls s)) (register_request tok aid u))
             # Stderr [Lit ''Error registering webhook for account '', Val aid, Lit '': '', Exc e]
             # (case e_response e of
                  None \<Rightarrow> []
                | Some resp \<Rightarrow> [Stderr [Lit ''Response: '', Lit (text_body resp)]])))"
  by (simp add: register_webhook_def send_eq Let_def split: sum.splits option.splits)

lemma register_webhook_trace:
  "register_webhook srv tok aid u s = (res, s') \<Longrightarrow> reported l s' = reported l s"
  by (auto simp: register_webhook_eq split: sum.splits option.splits)

lemma register_accounts_counts:
  "register_accounts srv tok u accs (r, f) s = (Inr (r', f'), s') \<Longrightarrow>
     r' + f' = r + f + int (length accs)"
proof (induction accs arbitrary: r f s)
  case Nil
  then show ?case by simp
next
  case (Cons a accs)
  then show ?case
    by (auto simp: Let_def split: if_splits prod.splits dest!: Cons.IH)
qed

lemma register_accounts_reported:
  assumes l: "l \<noteq> ''    Webhook ID: ''"
  shows "register_accounts srv tok u accs c s = (res, s') \<Longrightarrow> reported l s' = reported l s"
proof (induction accs arbitrary: c s)
  case Nil
  then show ?case by simp
next
  case (Cons a accs)
  obtain r f where c: "c = (r, f)" by (cases c)
  from Cons.prems l show ?case unfolding c
    by (auto simp: Let_def check_mark_def cross_mark_def split: if_splits prod.splits
          dest!: register_webhook_trace [where l = l] Cons.IH)
qed

lemma register_run_summary:
  assumes run: "register_run u env srv = (out, tr)"
    and summary: "reported ''  Successfully registered: '' tr \<noteq> []"
  shows "\<exists>r f access_token accounts. out = Inr () \<and> env = Some access_token \<and>
           fst (list_accounts (Some REQUEST_TIMEOUT) srv access_token []) = Inr accounts \<and>
           py_len accounts = Some (r + f) \<and>
           reported ''  Successfully registered: '' tr = [JNum r] \<and>
           reported ''  Failed to register: '' tr = [JNum f]"
proof -
  let ?s0 = "[Stdout [Lit ''Monzo Webhook Registration Tool''], Stdout [Lit rule50],
              Stdout [Lit ''Webhook URL: '', Lit u]]"
  obtain r1 s1 where g: "get_access_token env ?s0 = (r1, s1)"
    by fastforce
  have s1: "reported l s1 = []" "http_calls s1 = []" for l
    using get_access_token_trace [OF g, of l] by simp_all
  show ?thesis
  proof (cases r1)
    case (Inl a)
    with run g have "tr = s1" by (simp add: register_run_def)
    with summary s1 show ?thesis by simp
  next
    case tok: (Inr access_token)
    with g have env: "env = Some access_token"
      by (auto simp: get_access_token_eq split: if_splits)
    let ?s1' = "s1 @ [Stdout [Lit (CHR 0x0A # ''Fetching accounts...'')]]"
    obtain r2 s2 where la: "list_accounts (Some REQUEST_TIMEOUT) srv access_token ?s1' = (r2, s2)"
      by fastforce
    have s2: "reported l s2 = []" for l
      using list_accounts_trace [OF la, of l] s1 by simp
    have r2: "fst (list_accounts (Some REQUEST_TIMEOUT) srv access_token []) = r2"
      using list_accounts_fst [of "[]" ?s1' "Some REQUEST_TIMEOUT" srv access_token] la s1
      by simp
    show ?thesis
    proof (cases r2)
      case (Inl a)
      with run g tok la have "tr = s2" by (simp add: register_run_def)
      with summary s2 show ?thesis by simp
    next
      case accounts: (Inr accounts)
      show ?thesis
      proof (cases "py_iter accounts")
        case None
        with run g tok la accounts have "tr = s2 \<or> tr = s2 @ [Stdout [Lit ''No accounts found.'']]"
          by (auto simp: register_run_def split: if_splits)
        with summary s2 show ?thesis by auto
      next
        case (Some accs)
        let ?s2' = "s2 @ [Stdout [Lit ''Found '', Val (JNum (int (length accs))), Lit '' account(s)'']]"
        obtain r3 s3 where ra: "register_accounts srv access_token u accs (0, 0) ?s2' = (r3, s3)"
          by fastforce
        have s3: "reported ''  Successfully registered: '' s3 = []"
          "reported ''  Failed to register: '' s3 = []"
          using s2 register_accounts_reported [OF _ ra] by simp_all
        show ?thesis
        proof (cases "truthy accounts")
          case False
          with run g tok la accounts have "tr = s2 @ [Stdout [Lit ''No accounts found.'']]"
            by (simp add: register_run_def)
          with summary s2 show ?thesis by simp
        next
          case True
          show ?thesis
          proof (cases r3)
            case (Inl a)
            with run g tok la accounts Some ra True have "tr = s3"
              by (simp add: register_run_def)
            with summary s3 show ?thesis by simp
          next
            case (Inr c)
            obtain r f where c: "c = (r, f)" by (cases c)
            from run g tok la accounts Some ra True Inr c
            have tr: "tr = s3 @ register_summary r f" and out: "out = Inr ()"
              by (simp_all add: register_run_def)
            from register_accounts_counts [OF ra [unfolded Inr c]]
            have "r + f = int (length accs)" by simp
            with Some have "py_len accounts = Some (r + f)" by (simp add: py_len_def)
            with tr out s3 env r2 accounts show ?thesis
              by (simp add: register_summary_def)
          qed
        qed
      qed
    qed
  qed
qed

lemma register_main_cases:
  "register_main host_checks argv env srv = register_run (argv ! 1) env srv \<or>
   (\<exists>m. register_main host_checks argv env srv = (Inl (SystemExit 1), m) \<and> list_all is_stderr m \<and> m \<noteq> [])"
  by (auto simp: register_main_def usage_def Let_def split: sum.splits)

lemma register_main_accepts:
  "accepts host_checks argv \<Longrightarrow> register_main host_checks argv env srv = register_run (argv ! 1) env srv"
  by (auto simp: accepts_def register_main_def Let_def split: sum.splits)

lemma register_main_rejects:
  "\<not> accepts host_checks argv \<Longrightarrow>
     \<exists>m. register_main host_checks argv env srv = (Inl (SystemExit 1), m) \<and> m \<noteq> [] \<and> list_all is_stderr m"
  by (auto simp: accepts_def register_main_def usage_def Let_def split: sum.splits)

lemma register_main_argument_error:
  "\<not> accepts host_checks argv \<Longrightarrow>
     register_main host_checks argv env srv = (Inl (SystemExit 1), usage) \<or>
     register_main host_checks argv env srv =
       (Inl (SystemExit 1),
        [Stderr [Lit ''Error: Webhook URL must start with http:// or https://'']]) \<or>
     (\<exists>msg. register_main host_checks argv env srv =
        (Inl (SystemExit 1), [Stderr [Lit ''Error: Invalid webhook URL: '', Lit msg]])) \<or>
     register_main host_checks argv env srv =
       (Inl (SystemExit 1), [Stderr [Lit ''Error: Invalid webhook URL format'']])"
  by (auto simp: accepts_def register_main_def Let_def split: sum.splits)

lemma checked_json_Inr:
  "checked_json r = Inr j \<longleftrightarrow>
     (\<exists>resp. r = Responds resp \<and> \<not> (400 \<le> status_code resp \<and> status_code resp < 600) \<and>
        json_body resp = Some j)"
  by (auto simp: checked_json_def raise_for_status_def response_json_def
        split: reply.splits option.splits)

lemma checked_json_ex:
  "checked_json r = Inr j \<Longrightarrow>
     (\<exists>resp j'. r = Responds resp \<and> \<not> (400 \<le> status_code resp \<and> status_code resp < 600) \<and>
        json_body resp = Some j' \<and> Q j') \<longleftrightarrow> Q j"
  by (auto simp: checked_json_Inr)

lemma checked_json_no_ex:
  "checked_json r = Inl e \<Longrightarrow>
     \<not> (\<exists>resp j'. r = Responds resp \<and> \<not> (400 \<le> status_code resp \<and> status_code resp < 600) \<and>
        json_body resp = Some j' \<and> Q j')"
  using checked_json_Inr [of r] by auto

lemma demo_delete_run:
  "delete_main (Some ''token'') demo_server =
     (Inr (), snd (delete_main (Some ''token'') demo_server))"
  "reported ''  Total webhooks found: '' (snd (delete_main (Some ''token'') demo_server)) = [JNum 3]"
  "reported ''  Successfully deleted: '' (snd (delete_main (Some ''token'') demo_server)) = [JNum 2]"
  "reported ''  Failed to delete: '' (snd (delete_main (Some ''token'') demo_server)) = [JNum 1]"
  "length (failed_deletions (snd (delete_main (Some ''token'') demo_server))) = 1"
  by code_simp+

lemma demo_delete_step:
  "list_webhooks demo_server ''token'' (JStr ''acc_1'')
     (take 5 (snd (delete_main (Some ''token'') demo_server)) @
        [Stdout [Lit (CHR 0x0A # ''Processing account: ''), Val (JStr ''Current''),
                 Lit '' ('', Val (JStr ''acc_1''), Lit '')'']]) =
     (Inr (JArr demo_webhooks), take 7 (snd (delete_main (Some ''token'') demo_server)))"
  by code_simp

lemma demo_register_run:
  "register_main refuse_brackets demo_argv (Some ''token'') demo_registrar =
     (Inr (), snd (register_main refuse_brackets demo_argv (Some ''token'') demo_registrar))"
  "reported ''  Successfully registered: ''
     (snd (register_main refuse_brackets demo_argv (Some ''token'') demo_registrar)) = [JNum 1]"
  "reported ''  Failed to register: ''
     (snd (register_main refuse_brackets demo_argv (Some ''token'') demo_registrar)) = [JNum 2]"
  "fst (list_accounts (Some REQUEST_TIMEOUT) demo_registrar ''token'' []) = Inr (JArr demo_accounts)"
  "py_len (JArr demo_accounts) = Some 3"
  by code_simp+

lemma demo_no_accounts:
  "accepts refuse_brackets demo_argv"
  "fst (list_accounts None (always (json_response 200 (JObj [(''accounts'', JArr [])]))) ''token'' [])
     = Inr (JArr [])"
  "fst (list_accounts (Some REQUEST_TIMEOUT)
          (always (json_response 200 (JObj [(''accounts'', JArr [])]))) ''token'' [])
     = Inr (JArr [])"
  by code_simp+

lemma demo_failed_listing:
  "always (Responds \<lparr>status_code = 401, text_body = ''unauthorized'', json_body = None\<rparr>) 0
     (accounts_request None ''token'') =
   Responds \<lparr>status_code = 401, text_body = ''unauthorized'', json_body = None\<rparr>"
  "always (Fails ''connection refused'' None) 0 (accounts_request (Some REQUEST_TIMEOUT) ''token'') =
     Fails ''connection refused'' None"
  by (simp_all add: always_def)

section \<open>The claims\<close>

subsection \<open>C1\<close>

text \<open>
  C1. In every run of the deletion script that prints its summary, the three counters it
  reports satisfy total found = deleted + failed. In every run of the registration
  script that prints its summary, registered + failed is the number of accounts that
  \<^verbatim>\<open>list_accounts\<close> returned.
\<close>

theorem summary_counters_add_up:
  "(delete_main env srv = (out, tr) \<and> reported ''  Total webhooks found: '' tr \<noteq> [] \<longrightarrow>
      (\<exists>t d f. reported ''  Total webhooks found: '' tr = [JNum t] \<and>
               reported ''  Successfully deleted: '' tr = [JNum d] \<and>
               reported ''  Failed to delete: '' tr = [JNum f] \<and>
               t = d + f)) \<and>
   (register_main host_checks argv env' srv' = (out', tr') \<and>
    reported ''  Successfully registered: '' tr' \<noteq> [] \<longrightarrow>
      (\<exists>r f access_token accounts.
         env' = Some access_token \<and>
         fst (list_accounts (Some REQUEST_TIMEOUT) srv' access_token []) = Inr accounts \<and>
         reported ''  Successfully registered: '' tr' = [JNum r] \<and>
         reported ''  Failed to register: '' tr' = [JNum f] \<and>
         py_len accounts = Some (r + f)))"
proof (rule conjI; rule impI)
  assume "delete_main env srv = (out, tr) \<and> reported ''  Total webhooks found: '' tr \<noteq> []"
  then obtain t d where "reported ''  Total webhooks found: '' tr = [JNum t]"
    "reported ''  Successfully deleted: '' tr = [JNum d]"
    "reported ''  Failed to delete: '' tr = [JNum (t - d)]"
    using delete_main_summary [of env srv out tr] by blast
  moreover have "t = d + (t - d)" by simp
  ultimately show "\<exists>t d f. reported ''  Total webhooks found: '' tr = [JNum t] \<and>
               reported ''  Successfully deleted: '' tr = [JNum d] \<and>
               reported ''  Failed to delete: '' tr = [JNum f] \<and>
               t = d + f"
    by blast
next
  assume h: "register_main host_checks argv env' srv' = (out', tr') \<and>
    reported ''  Successfully registered: '' tr' \<noteq> []"
  from register_main_cases [of host_checks argv env' srv'] h reported_stderr
  have "register_run (argv ! 1) env' srv' = (out', tr')"
    by auto
  from register_run_summary [OF this] h
  show "\<exists>r f access_token accounts.
         env' = Some access_token \<and>
         fst (list_accounts (Some REQUEST_TIMEOUT) srv' access_token []) = Inr accounts \<and>
         reported ''  Successfully registered: '' tr' = [JNum r] \<and>
         reported ''  Failed to register: '' tr' = [JNum f] \<and>
         py_len accounts = Some (r + f)"
    by blast
qed

text \<open>C1 on the example services: 3 = 2 + 1 webhooks, and 1 + 2 = 3 accounts.\<close>

theorem summary_counters_add_up_witness:
  "reported ''  Total webhooks found: '' (snd (delete_main (Some ''token'') demo_server)) \<noteq> [] \<and>
   reported ''  Successfully registered: ''
     (snd (register_main refuse_brackets demo_argv (Some ''token'') demo_registrar)) \<noteq> [] \<and>
   (\<exists>t d f.
      reported ''  Total webhooks found: '' (snd (delete_main (Some ''token'') demo_server)) = [JNum t] \<and>
      reported ''  Successfully deleted: '' (snd (delete_main (Some ''token'') demo_server)) = [JNum d] \<and>
      reported ''  Failed to delete: '' (snd (delete_main (Some ''token'') demo_server)) = [JNum f] \<and>
      t = 3 \<and> d = 2 \<and> f = 1 \<and> t = d + f) \<and>
   (\<exists>r f.
      reported ''  Successfully registered: ''
        (snd (register_main refuse_brackets demo_argv (Some ''token'') demo_registrar)) = [JNum r] \<and>
      reported ''  Failed to register: ''
        (snd (register_main refuse_brackets demo_argv (Some ''token'') demo_registrar)) = [JNum f] \<and>
      py_len (JArr demo_accounts) = Some (r + f) \<and> r = 1 \<and> f = 2)"
  using summary_counters_add_up
    [of "Some ''token''" demo_server "Inr ()" "snd (delete_main (Some ''token'') demo_server)"
        refuse_brackets demo_argv "Some ''token''" demo_registrar "Inr ()"
        "snd (register_main refuse_brackets demo_argv (Some ''token'') demo_registrar)"]
    demo_delete_run demo_register_run
  by auto

subsection \<open>C2\<close>

text \<open>
  C2, as amended. When the account listing returns an empty (falsy) value, both scripts
  print \<^verbatim>\<open>No accounts found.\<close> and \<^verbatim>\<open>main\<close> returns: the listing is the only HTTP call
  of the run, and the process ends with exit status 0, not as a fatal error.
\<close>

theorem no_accounts_returns_normally:
  "(token \<noteq> [] \<and> fst (list_accounts None srv token []) = Inr accounts \<and> \<not> truthy accounts \<longrightarrow>
      delete_main (Some token) srv =
        (Inr (),
         [Stdout [Lit ''Monzo Webhook Deletion Tool''], Stdout [Lit rule50],
          Stdout [Lit (CHR 0x0A # ''Fetching accounts...'')],
          Http (accounts_request None token) (srv 0 (accounts_request None token)),
          Stdout [Lit ''No accounts found.'']]) \<and>
      exit_status (fst (delete_main (Some token) srv)) = 0) \<and>
   (accepts host_checks argv \<and> token \<noteq> [] \<and>
    fst (list_accounts (Some REQUEST_TIMEOUT) srv' token []) = Inr accounts' \<and>
    \<not> truthy accounts' \<longrightarrow>
      register_main host_checks argv (Some token) srv' =
        (Inr (),
         [Stdout [Lit ''Monzo Webhook Registration Tool''], Stdout [Lit rule50],
          Stdout [Lit ''Webhook URL: '', Lit (argv ! 1)],
          Stdout [Lit (CHR 0x0A # ''Fetching accounts...'')],
          Http (accounts_request (Some REQUEST_TIMEOUT) token)
            (srv' 0 (accounts_request (Some REQUEST_TIMEOUT) token)),
          Stdout [Lit ''No accounts found.'']]) \<and>
      exit_status (fst (register_main host_checks argv (Some token) srv')) = 0)"
proof (rule conjI; rule impI)
  assume h: "token \<noteq> [] \<and> fst (list_accounts None srv token []) = Inr accounts \<and> \<not> truthy accounts"
  then have "delete_main (Some token) srv =
        (Inr (),
         [Stdout [Lit ''Monzo Webhook Deletion Tool''], Stdout [Lit rule50],
          Stdout [Lit (CHR 0x0A # ''Fetching accounts...'')],
          Http (accounts_request None token) (srv 0 (accounts_request None token)),
          Stdout [Lit ''No accounts found.'']])"
    by (auto simp: delete_main_def get_access_token_eq list_accounts_eq
          split: sum.splits if_splits)
  then show "delete_main (Some token) srv =
        (Inr (),
         [Stdout [Lit ''Monzo Webhook Deletion Tool''], Stdout [Lit rule50],
          Stdout [Lit (CHR 0x0A # ''Fetching accounts...'')],
          Http (accounts_request None token) (srv 0 (accounts_request None token)),
          Stdout [Lit ''No accounts found.'']]) \<and>
      exit_status (fst (delete_main (Some token) srv)) = 0"
    by simp
next
  assume h: "accepts host_checks argv \<and> token \<noteq> [] \<and>
    fst (list_accounts (Some REQUEST_TIMEOUT) srv' token []) = Inr accounts' \<and>
    \<not> truthy accounts'"
  then have "register_main host_checks argv (Some token) srv' =
        (Inr (),
         [Stdout [Lit ''Monzo Webhook Registration Tool''], Stdout [Lit rule50],
          Stdout [Lit ''Webhook URL: '', Lit (argv ! 1)],
          Stdout [Lit (CHR 0x0A # ''Fetching accounts...'')],
          Http (accounts_request (Some REQUEST_TIMEOUT) token)
            (srv' 0 (accounts_request (Some REQUEST_TIMEOUT) token)),
          Stdout [Lit ''No accounts found.'']])"
    by (auto simp: register_main_accepts register_run_def get_access_token_eq list_accounts_eq
          split: sum.splits if_splits)
  then show "register_main host_checks argv (Some token) srv' =
        (Inr (),
         [Stdout [Lit ''Monzo Webhook Registration Tool''], Stdout [Lit rule50],
          Stdout [Lit ''Webhook URL: '', Lit (argv ! 1)],
          Stdout [Lit (CHR 0x0A # ''Fetching accounts...'')],
          Http (accounts_request (Some REQUEST_TIMEOUT) token)
            (srv' 0 (accounts_request (Some REQUEST_TIMEOUT) token)),
          Stdout [Lit ''No accounts found.'']]) \<and>
      exit_status (fst (register_main host_checks argv (Some token) srv')) = 0"
    by simp
qed

text \<open>C2, as amended, on a service that lists no accounts.\<close>

theorem no_accounts_returns_normally_witness:
  "''token'' \<noteq> [] \<and> accepts refuse_brackets demo_argv \<and> \<not> truthy (JArr []) \<and>
   exit_status (fst (delete_main (Some ''token'')
     (always (json_response 200 (JObj [(''accounts'', JArr [])]))))) = 0 \<and>
   exit_status (fst (register_main refuse_brackets demo_argv (Some ''token'')
     (always (json_response 200 (JObj [(''accounts'', JArr [])]))))) = 0"
  using no_accounts_returns_normally
    [of "''token''" "always (json_response 200 (JObj [(''accounts'', JArr [])]))" "JArr []"
        refuse_brackets demo_argv "always (json_response 200 (JObj [(''accounts'', JArr [])]))" "JArr []"]
    demo_no_accounts
  by simp

text \<open>
  C2 as stated fails: with an empty list of accounts both scripts end with exit status 0.
\<close>

theorem empty_account_list_exits_zero:
  "fst (list_accounts None (always (json_response 200 (JObj [(''accounts'', JArr [])]))) ''token'' [])
     = Inr (JArr []) \<and>
   exit_status (fst (delete_main (Some ''token'')
     (always (json_response 200 (JObj [(''accounts'', JArr [])]))))) = 0 \<and>
   exit_status (fst (register_main refuse_brackets demo_argv (Some ''token'')
     (always (json_response 200 (JObj [(''accounts'', JArr [])]))))) = 0"
  by code_simp

subsection \<open>C3\<close>

text \<open>
  C3. When the URL argument of the registration script does not start with
  \<^verbatim>\<open>http://\<close> or \<^verbatim>\<open>https://\<close>, or parses to an empty network location, the script
  prints one error line on standard error and exits with status 1 without any HTTP call,
  whatever the environment and the service. \<^verbatim>\<open>ftp://x.com/hook\<close> and \<^verbatim>\<open>https://\<close> are
  rejected so.
\<close>

theorem invalid_url_is_rejected_before_any_call:
  "(\<not> startswith_http webhook_url \<or> urlparse host_checks webhook_url = Inr [] \<longrightarrow>
      (\<exists>m. register_main host_checks [prog, webhook_url] env srv = (Inl (SystemExit 1), [Stderr [Lit m]])) \<and>
      exit_status (fst (register_main host_checks [prog, webhook_url] env srv)) \<noteq> 0 \<and>
      http_calls (snd (register_main host_checks [prog, webhook_url] env srv)) = []) \<and>
   register_main host_checks [prog, ''ftp://x.com/hook''] env srv =
     (Inl (SystemExit 1), [Stderr [Lit ''Error: Webhook URL must start with http:// or https://'']]) \<and>
   register_main host_checks [prog, ''https://''] env srv =
     (Inl (SystemExit 1), [Stderr [Lit ''Error: Invalid webhook URL format'']])"
proof (intro conjI impI)
  assume "\<not> startswith_http webhook_url \<or> urlparse host_checks webhook_url = Inr []"
  then have *: "register_main host_checks [prog, webhook_url] env srv =
      (Inl (SystemExit 1), [Stderr [Lit ''Error: Webhook URL must start with http:// or https://'']]) \<or>
    register_main host_checks [prog, webhook_url] env srv =
      (Inl (SystemExit 1), [Stderr [Lit ''Error: Invalid webhook URL format'']])"
    by (auto simp: register_main_def)
  from * show "\<exists>m. register_main host_checks [prog, webhook_url] env srv = (Inl (SystemExit 1), [Stderr [Lit m]])"
    by auto
  from * show "exit_status (fst (register_main host_checks [prog, webhook_url] env srv)) \<noteq> 0"
    by auto
  from * show "http_calls (snd (register_main host_checks [prog, webhook_url] env srv)) = []"
    by auto
next
  have "\<not> startswith_http ''ftp://x.com/hook''" by code_simp
  then show "register_main host_checks [prog, ''ftp://x.com/hook''] env srv =
     (Inl (SystemExit 1), [Stderr [Lit ''Error: Webhook URL must start with http:// or https://'']])"
    by (simp add: register_main_def)
next
  have "startswith_http ''https://''" by code_simp
  moreover have "urlparse host_checks ''https://'' = Inr []"
    by (simp add: urlparse_def after_scheme_def is_alpha_def scheme_char_def Let_def)
  ultimately show "register_main host_checks [prog, ''https://''] env srv =
     (Inl (SystemExit 1), [Stderr [Lit ''Error: Invalid webhook URL format'']])"
    by (simp add: register_main_def)
qed

text \<open>C3 on a URL with the right prefix and no network location.\<close>

theorem invalid_url_is_rejected_before_any_call_witness:
  "urlparse refuse_brackets ''http://?token=1'' = Inr [] \<and>
   (\<exists>m. register_main refuse_brackets [''register_webhooks.py'', ''http://?token=1''] (Some ''token'') demo_registrar
          = (Inl (SystemExit 1), [Stderr [Lit m]])) \<and>
   http_calls (snd (register_main refuse_brackets [''register_webhooks.py'', ''http://?token=1''] (Some ''token'')
      demo_registrar)) = []"
proof -
  have "urlparse refuse_brackets ''http://?token=1'' = Inr []" by code_simp
  with invalid_url_is_rejected_before_any_call
    [of "''http://?token=1''" refuse_brackets "''register_webhooks.py''" "Some ''token''" demo_registrar]
  show ?thesis by simp
qed

subsection \<open>C4\<close>

text \<open>
  C4, as amended. For an account whose webhook listing fails with a transport error or
  with a status from 400 to 599, \<^verbatim>\<open>list_webhooks\<close> logs the error and returns the empty
  list, and the loop over the accounts goes on with the remaining accounts and the same
  counters: the account adds nothing to the total and the run does not crash there.
\<close>

theorem failed_webhook_listing_skips_the_account:
  "has_get account \<and>
   r = srv (length (http_calls s)) (webhooks_request tok (dict_get account ''id'' JNull)) \<and>
   (r = Fails m ro \<or> (r = Responds resp \<and> 400 \<le> status_code resp \<and> status_code resp < 600)) \<longrightarrow>
     list_webhooks srv tok (dict_get account ''id'' JNull)
       (s @ [Stdout [Lit (CHR 0x0A # ''Processing account: ''),
                     Val (dict_get account ''description'' (JStr ''Unknown'')),
                     Lit '' ('', Val (dict_get account ''id'' JNull), Lit '')'']]) =
       (Inr (JArr []),
        s @ [Stdout [Lit (CHR 0x0A # ''Processing account: ''),
                     Val (dict_get account ''description'' (JStr ''Unknown'')),
                     Lit '' ('', Val (dict_get account ''id'' JNull), Lit '')''],
             Http (webhooks_request tok (dict_get account ''id'' JNull)) r,
             Stderr [Lit ''Error listing webhooks for account '', Val (dict_get account ''id'' JNull),
                     Lit '': '', Exc (raised r)]]) \<and>
     delete_accounts srv tok (account # rest) (total_webhooks, deleted_webhooks) s =
       delete_accounts srv tok rest (total_webhooks, deleted_webhooks)
         (s @ [Stdout [Lit (CHR 0x0A # ''Processing account: ''),
                       Val (dict_get account ''description'' (JStr ''Unknown'')),
                       Lit '' ('', Val (dict_get account ''id'' JNull), Lit '')''],
               Http (webhooks_request tok (dict_get account ''id'' JNull)) r,
               Stderr [Lit ''Error listing webhooks for account '', Val (dict_get account ''id'' JNull),
                       Lit '': '', Exc (raised r)],
               Stdout [Lit ''  No webhooks found for this account'']])"
  by (auto simp: list_webhooks_eq checked_json_def raise_for_status_def Let_def)

text \<open>C4, as amended, on the second account of the example service.\<close>

theorem failed_webhook_listing_skips_the_account_witness:
  "has_get (JObj [(''id'', JStr ''acc_2'')]) \<and>
   demo_server 4 (webhooks_request ''token'' (JStr ''acc_2'')) = Fails ''connection reset'' None \<and>
   delete_accounts demo_server ''token'' [JObj [(''id'', JStr ''acc_2'')], JObj [(''id'', JStr ''acc_3'')]]
       (2, 1) (replicate 4 (Http (accounts_request None ''token'') (Fails '''' None))) =
     delete_accounts demo_server ''token'' [JObj [(''id'', JStr ''acc_3'')]] (2, 1)
       (replicate 4 (Http (accounts_request None ''token'') (Fails '''' None)) @
        [Stdout [Lit (CHR 0x0A # ''Processing account: ''), Val (JStr ''Unknown''),
                 Lit '' ('', Val (JStr ''acc_2''), Lit '')''],
         Http (webhooks_request ''token'' (JStr ''acc_2'')) (Fails ''connection reset'' None),
         Stderr [Lit ''Error listing webhooks for account '', Val (JStr ''acc_2''),
                 Lit '': '', Exc (TransportError ''connection reset'' None)],
         Stdout [Lit ''  No webhooks found for this account'']]) \<and>
   fst (delete_accounts demo_server ''token''
          [JObj [(''id'', JStr ''acc_2'')], JObj [(''id'', JStr ''acc_3'')]]
          (2, 1) (replicate 4 (Http (accounts_request None ''token'') (Fails '''' None)))) = Inr (3, 2)"
proof -
  have a: "length (http_calls (replicate 4 (Http (accounts_request None ''token'') (Fails '''' None)))) = 4"
    by (simp add: numeral_eq_Suc)
  have b: "demo_server 4 (webhooks_request ''token'' (JStr ''acc_2'')) = Fails ''connection reset'' None"
    by (simp add: demo_server_def)
  have c: "fst (delete_accounts demo_server ''token''
          [JObj [(''id'', JStr ''acc_2'')], JObj [(''id'', JStr ''acc_3'')]]
          (2, 1) (replicate 4 (Http (accounts_request None ''token'') (Fails '''' None)))) = Inr (3, 2)"
    by code_simp
  from failed_webhook_listing_skips_the_account
    [of "JObj [(''id'', JStr ''acc_2'')]" "Fails ''connection reset'' None" demo_server
        "replicate 4 (Http (accounts_request None ''token'') (Fails '''' None))" "''token''"
        "''connection reset''" None
        "\<lparr>status_code = 500, text_body = [], json_body = None\<rparr>" "[JObj [(''id'', JStr ''acc_3'')]]" 2 1] a b c
  show ?thesis by simp
qed

text \<open>
  C4 as stated fails for a status that is not 2xx and not an error status: a listing
  answered with status 300 is used like a successful one, nothing is logged, and its
  webhooks are counted and deleted.
\<close>

theorem webhook_listing_with_status_300_is_used:
  "status_of (always (json_response 300 (JObj [(''webhooks'', JArr demo_webhooks)])) 0
      (webhooks_request ''token'' (JStr ''acc_1''))) = Some 300 \<and>
   list_webhooks (always (json_response 300 (JObj [(''webhooks'', JArr demo_webhooks)])))
       ''token'' (JStr ''acc_1'') [] =
     (Inr (JArr demo_webhooks),
      [Http (webhooks_request ''token'' (JStr ''acc_1''))
         (json_response 300 (JObj [(''webhooks'', JArr demo_webhooks)]))]) \<and>
   fst (delete_accounts (always (json_response 300 (JObj [(''webhooks'', JArr demo_webhooks)])))
          ''token'' [JObj [(''id'', JStr ''acc_1'')]] (0, 0) []) = Inr (2, 2)"
  by code_simp

subsection \<open>C5\<close>

text \<open>
  C5, as amended. A deletion that fails does not stop the run. For an account whose
  listing gave the webhooks \<open>ws\<close> (each a JSON object), the inner loop returns after one
  deletion request per webhook, in order, whatever the replies were; the successes it
  counts are the attempts that did not fail; and the loop over the accounts goes on with
  the remaining accounts. In a run that prints its summary, the total found is the
  number of deletion attempts and the failed count is exactly the number of attempts
  that ended in a transport error or were answered with a status from 400 to 599.
\<close>

theorem deletion_failure_does_not_abort:
  "(has_get account \<and>
    list_webhooks srv tok (dict_get account ''id'' JNull)
      (s @ [Stdout [Lit (CHR 0x0A # ''Processing account: ''),
                    Val (dict_get account ''description'' (JStr ''Unknown'')),
                    Lit '' ('', Val (dict_get account ''id'' JNull), Lit '')'']]) =
      (Inr (JArr ws), s2) \<and>
    ws \<noteq> [] \<and> list_all has_get ws \<longrightarrow>
    (\<exists>d' s3.
       delete_each srv tok ws d
         (s2 @ [Stdout [Lit ''  Found '', Val (JNum (int (length ws))), Lit '' webhook(s)'']]) =
         (Inr d', s3) \<and>
       map fst (deletions s3) =
         map fst (deletions s2) @ map (\<lambda>w. delete_request tok (dict_get w ''id'' JNull)) ws \<and>
       int (length ws) - (d' - d) =
         int (length (failed_deletions s3)) - int (length (failed_deletions s2)) \<and>
       delete_accounts srv tok (account # rest) (t, d) s =
         delete_accounts srv tok rest (t + int (length ws), d') s3)) \<and>
   (delete_main env srv = (out, tr) \<and> reported ''  Total webhooks found: '' tr \<noteq> [] \<longrightarrow>
      reported ''  Total webhooks found: '' tr = [JNum (int (length (deletions tr)))] \<and>
      reported ''  Failed to delete: '' tr = [JNum (int (length (failed_deletions tr)))])"
proof (rule conjI; rule impI)
  assume h: "has_get account \<and>
    list_webhooks srv tok (dict_get account ''id'' JNull)
      (s @ [Stdout [Lit (CHR 0x0A # ''Processing account: ''),
                    Val (dict_get account ''description'' (JStr ''Unknown'')),
                    Lit '' ('', Val (dict_get account ''id'' JNull), Lit '')'']]) =
      (Inr (JArr ws), s2) \<and>
    ws \<noteq> [] \<and> list_all has_get ws"
  let ?s2 = "s2 @ [Stdout [Lit ''  Found '', Val (JNum (int (length ws))), Lit '' webhook(s)'']]"
  from h delete_each_total [of ws srv tok d ?s2]
  obtain d' s3 where each: "delete_each srv tok ws d ?s2 = (Inr d', s3)"
    and reqs: "map fst (deletions s3) =
         map fst (deletions s2) @ map (\<lambda>w. delete_request tok (dict_get w ''id'' JNull)) ws"
    by auto
  from delete_each_counts [OF each]
  have "int (length ws) - (d' - d) =
         int (length (failed_deletions s3)) - int (length (failed_deletions s2))"
    by simp
  moreover from h each
  have "delete_accounts srv tok (account # rest) (t, d) s =
         delete_accounts srv tok rest (t + int (length ws), d') s3"
    by (simp add: Let_def)
  ultimately show "\<exists>d' s3.
       delete_each srv tok ws d ?s2 = (Inr d', s3) \<and>
       map fst (deletions s3) =
         map fst (deletions s2) @ map (\<lambda>w. delete_request tok (dict_get w ''id'' JNull)) ws \<and>
       int (length ws) - (d' - d) =
         int (length (failed_deletions s3)) - int (length (failed_deletions s2)) \<and>
       delete_accounts srv tok (account # rest) (t, d) s =
         delete_accounts srv tok rest (t + int (length ws), d') s3"
    using each reqs by blast
next
  assume "delete_main env srv = (out, tr) \<and> reported ''  Total webhooks found: '' tr \<noteq> []"
  then obtain t d where "reported ''  Total webhooks found: '' tr = [JNum t]"
    "reported ''  Failed to delete: '' tr = [JNum (t - d)]"
    "t = int (length (deletions tr))" "t - d = int (length (failed_deletions tr))"
    using delete_main_summary [of env srv out tr] by blast
  then show "reported ''  Total webhooks found: '' tr = [JNum (int (length (deletions tr)))] \<and>
      reported ''  Failed to delete: '' tr = [JNum (int (length (failed_deletions tr)))]"
    by simp
qed

text \<open>
  C5, as amended, on the example service: the first deletion fails (status 500), the
  second is still attempted,
  the other accounts are processed, and the summary reports 1 failure.
\<close>

theorem deletion_failure_does_not_abort_witness:
  "has_get (hd demo_accounts) \<and> demo_webhooks \<noteq> [] \<and> list_all has_get demo_webhooks \<and>
   (\<exists>d' s3.
       delete_each demo_server ''token'' demo_webhooks 0
         (take 7 (snd (delete_main (Some ''token'') demo_server)) @
            [Stdout [Lit ''  Found '', Val (JNum 2), Lit '' webhook(s)'']]) = (Inr d', s3) \<and>
       int (length (failed_deletions s3)) = 2 - d' \<and>
       delete_accounts demo_server ''token'' demo_accounts (0, 0)
         (take 5 (snd (delete_main (Some ''token'') demo_server))) =
       delete_accounts demo_server ''token'' (tl demo_accounts) (2, d') s3) \<and>
   reported ''  Total webhooks found: '' (snd (delete_main (Some ''token'') demo_server)) = [JNum 3] \<and>
   length (deletions (snd (delete_main (Some ''token'') demo_server))) = 3 \<and>
   reported ''  Failed to delete: '' (snd (delete_main (Some ''token'') demo_server)) = [JNum 1] \<and>
   length (failed_deletions (snd (delete_main (Some ''token'') demo_server))) = 1"
proof -
  have a: "has_get (hd demo_accounts)" "demo_webhooks \<noteq> []" "list_all has_get demo_webhooks"
    "dict_get (hd demo_accounts) ''id'' JNull = JStr ''acc_1''"
    "dict_get (hd demo_accounts) ''description'' (JStr ''Unknown'') = JStr ''Current''"
    "length demo_webhooks = 2" "demo_accounts = hd demo_accounts # tl demo_accounts"
    "failed_deletions (take 7 (snd (delete_main (Some ''token'') demo_server))) = []"
    by (simp_all add: demo_accounts_def demo_webhooks_def) code_simp
  note inst = deletion_failure_does_not_abort
    [of "hd demo_accounts" demo_server "''token''"
        "take 5 (snd (delete_main (Some ''token'') demo_server))" demo_webhooks
        "take 7 (snd (delete_main (Some ''token'') demo_server))" 0 "tl demo_accounts" 0
        "Some ''token''" "Inr ()" "snd (delete_main (Some ''token'') demo_server)"]
  from inst a demo_delete_step demo_delete_run show ?thesis
    by auto
qed

text \<open>
  C5 as stated fails when a failed attempt is one that was not answered with a 2xx
  status: a deletion answered with status 300 is counted as deleted, and the summary
  reports no failure.
\<close>

theorem deletion_answered_300_is_counted_deleted:
  "map (status_of \<circ> snd)
     (deletions (snd (delete_main (Some ''token'')
        (always (json_response 300
           (JObj [(''accounts'', JArr [JObj [(''id'', JStr ''acc_1'')]]),
                  (''webhooks'', JArr [JObj [(''id'', JStr ''wh_1'')]])])))))) = [Some 300] \<and>
   reported ''  Total webhooks found: ''
     (snd (delete_main (Some ''token'')
        (always (json_response 300
           (JObj [(''accounts'', JArr [JObj [(''id'', JStr ''acc_1'')]]),
                  (''webhooks'', JArr [JObj [(''id'', JStr ''wh_1'')]])]))))) = [JNum 1] \<and>
   reported ''  Successfully deleted: ''
     (snd (delete_main (Some ''token'')
        (always (json_response 300
           (JObj [(''accounts'', JArr [JObj [(''id'', JStr ''acc_1'')]]),
                  (''webhooks'', JArr [JObj [(''id'', JStr ''wh_1'')]])]))))) = [JNum 1] \<and>
   reported ''  Failed to delete: ''
     (snd (delete_main (Some ''token'')
        (always (json_response 300
           (JObj [(''accounts'', JArr [JObj [(''id'', JStr ''acc_1'')]]),
                  (''webhooks'', JArr [JObj [(''id'', JStr ''wh_1'')]])]))))) = [JNum 0]"
  by code_simp

subsection \<open>C6\<close>

text \<open>
  C6, as amended. When the account listing fails with a transport error or with a status
  from 400 to 599, both scripts log the error on standard error and exit with status 1;
  the listing is the only HTTP call of the run. (For the registration script the listing
  is reached when the argument check has passed.)
\<close>

theorem failed_account_listing_is_fatal:
  "(token \<noteq> [] \<and> r = srv 0 (accounts_request None token) \<and>
    (r = Fails m ro \<or> (r = Responds resp \<and> 400 \<le> status_code resp \<and> status_code resp < 600)) \<longrightarrow>
      delete_main (Some token) srv =
        (Inl (SystemExit 1),
         [Stdout [Lit ''Monzo Webhook Deletion Tool''], Stdout [Lit rule50],
          Stdout [Lit (CHR 0x0A # ''Fetching accounts...'')],
          Http (accounts_request None token) r,
          Stderr [Lit ''Error listing accounts: '', Exc (raised r)]])) \<and>
   (accepts host_checks argv \<and> token \<noteq> [] \<and> r' = srv' 0 (accounts_request (Some REQUEST_TIMEOUT) token) \<and>
    (r' = Fails m' ro' \<or> (r' = Responds resp' \<and> 400 \<le> status_code resp' \<and> status_code resp' < 600)) \<longrightarrow>
      register_main host_checks argv (Some token) srv' =
        (Inl (SystemExit 1),
         [Stdout [Lit ''Monzo Webhook Registration Tool''], Stdout [Lit rule50],
          Stdout [Lit ''Webhook URL: '', Lit (argv ! 1)],
          Stdout [Lit (CHR 0x0A # ''Fetching accounts...'')],
          Http (accounts_request (Some REQUEST_TIMEOUT) token) r',
          Stderr [Lit ''Error listing accounts: '', Exc (raised r')]]))"
  by (auto simp: delete_main_def register_main_accepts register_run_def get_access_token_eq
        list_accounts_eq checked_json_def raise_for_status_def)

text \<open>C6, as amended, on a service that answers 401 and on one that cannot be reached.\<close>

theorem failed_account_listing_is_fatal_witness:
  "''token'' \<noteq> [] \<and> accepts refuse_brackets demo_argv \<and>
   delete_main (Some ''token'')
       (always (Responds \<lparr>status_code = 401, text_body = ''unauthorized'', json_body = None\<rparr>)) =
     (Inl (SystemExit 1),
      [Stdout [Lit ''Monzo Webhook Deletion Tool''], Stdout [Lit rule50],
       Stdout [Lit (CHR 0x0A # ''Fetching accounts...'')],
       Http (accounts_request None ''token'')
         (Responds \<lparr>status_code = 401, text_body = ''unauthorized'', json_body = None\<rparr>),
       Stderr [Lit ''Error listing accounts: '',
               Exc (HTTPError \<lparr>status_code = 401, text_body = ''unauthorized'', json_body = None\<rparr>)]]) \<and>
   register_main refuse_brackets demo_argv (Some ''token'') (always (Fails ''connection refused'' None)) =
     (Inl (SystemExit 1),
      [Stdout [Lit ''Monzo Webhook Registration Tool''], Stdout [Lit rule50],
       Stdout [Lit ''Webhook URL: '', Lit ''https://example.com/webhook''],
       Stdout [Lit (CHR 0x0A # ''Fetching accounts...'')],
       Http (accounts_request (Some REQUEST_TIMEOUT) ''token'') (Fails ''connection refused'' None),
       Stderr [Lit ''Error listing accounts: '', Exc (TransportError ''connection refused'' None)]])"
  using failed_account_listing_is_fatal
    [of "''token''"
        "Responds \<lparr>status_code = 401, text_body = ''unauthorized'', json_body = None\<rparr>"
        "always (Responds \<lparr>status_code = 401, text_body = ''unauthorized'', json_body = None\<rparr>)"
        "''''" None "\<lparr>status_code = 401, text_body = ''unauthorized'', json_body = None\<rparr>"
        refuse_brackets demo_argv "Fails ''connection refused'' None" "always (Fails ''connection refused'' None)"
        "''connection refused''" None "\<lparr>status_code = 401, text_body = ''unauthorized'', json_body = None\<rparr>"]
    demo_no_accounts(1) demo_failed_listing
  by (simp add: demo_argv_def)

text \<open>
  C6 as stated fails for a status that is not 2xx and not an error status: when the
  listing is answered with status 300 and a JSON document, both scripts go on to the
  webhook-level calls and end with exit status 0.
\<close>

theorem listing_with_status_300_is_not_fatal:
  "status_of (always (json_response 300 (JObj [(''accounts'', JArr demo_accounts)])) 0
      (accounts_request None ''token'')) = Some 300 \<and>
   exit_status (fst (delete_main (Some ''token'')
      (always (json_response 300 (JObj [(''accounts'', JArr demo_accounts)]))))) = 0 \<and>
   map verb (http_requests (snd (delete_main (Some ''token'')
      (always (json_response 300 (JObj [(''accounts'', JArr demo_accounts)])))))) =
     [GET, GET, GET, GET] \<and>
   exit_status (fst (register_main refuse_brackets demo_argv (Some ''token'')
      (always (json_response 300 (JObj [(''accounts'', JArr demo_accounts)]))))) = 0 \<and>
   map verb (http_requests (snd (register_main refuse_brackets demo_argv (Some ''token'')
      (always (json_response 300 (JObj [(''accounts'', JArr demo_accounts)])))))) =
     [GET, POST, POST, POST]"
  by code_simp

subsection \<open>C7\<close>

text \<open>
  C7, as amended. With the credential variable unset, the deletion script, and the
  registration script when its argument check has passed, print the remediation text on
  standard error and exit with status 1. A registration run whose argument check fails
  exits with status 1 on the usage or URL error instead, before the credential is read,
  and prints no line of the remediation text.
  In every case the exit status is not zero and no HTTP call is made.
\<close>

theorem missing_credential_exits_with_remediation:
  "delete_main None srv =
     (Inl (SystemExit 1),
      [Stdout [Lit ''Monzo Webhook Deletion Tool''], Stdout [Lit rule50]] @ remediation) \<and>
   (accepts host_checks argv \<longrightarrow>
      register_main host_checks argv None srv =
        (Inl (SystemExit 1),
         [Stdout [Lit ''Monzo Webhook Registration Tool''], Stdout [Lit rule50],
          Stdout [Lit ''Webhook URL: '', Lit (argv ! 1)]] @ remediation)) \<and>
   (\<not> accepts host_checks argv \<longrightarrow>
      (register_main host_checks argv None srv = (Inl (SystemExit 1), usage) \<or>
       register_main host_checks argv None srv =
         (Inl (SystemExit 1),
          [Stderr [Lit ''Error: Webhook URL must start with http:// or https://'']]) \<or>
       (\<exists>msg. register_main host_checks argv None srv =
          (Inl (SystemExit 1), [Stderr [Lit ''Error: Invalid webhook URL: '', Lit msg]])) \<or>
       register_main host_checks argv None srv =
         (Inl (SystemExit 1), [Stderr [Lit ''Error: Invalid webhook URL format'']])) \<and>
      set remediation \<inter> set (snd (register_main host_checks argv None srv)) = {}) \<and>
   exit_status (fst (delete_main None srv)) \<noteq> 0 \<and>
   exit_status (fst (register_main host_checks argv None srv)) \<noteq> 0 \<and>
   http_calls (snd (delete_main None srv)) = [] \<and>
   http_calls (snd (register_main host_checks argv None srv)) = []"
proof -
  have d: "delete_main None srv =
     (Inl (SystemExit 1),
      [Stdout [Lit ''Monzo Webhook Deletion Tool''], Stdout [Lit rule50]] @ remediation)"
    by (simp add: delete_main_def get_access_token_eq)
  have a: "register_main host_checks argv None srv =
        (Inl (SystemExit 1),
         [Stdout [Lit ''Monzo Webhook Registration Tool''], Stdout [Lit rule50],
          Stdout [Lit ''Webhook URL: '', Lit (argv ! 1)]] @ remediation)"
    if "accepts host_checks argv"
    using that by (simp add: register_main_accepts register_run_def get_access_token_eq)
  have n: "register_main host_checks argv None srv = (Inl (SystemExit 1), usage) \<or>
       register_main host_checks argv None srv =
         (Inl (SystemExit 1),
          [Stderr [Lit ''Error: Webhook URL must start with http:// or https://'']]) \<or>
       (\<exists>msg. register_main host_checks argv None srv =
          (Inl (SystemExit 1), [Stderr [Lit ''Error: Invalid webhook URL: '', Lit msg]])) \<or>
       register_main host_checks argv None srv =
         (Inl (SystemExit 1), [Stderr [Lit ''Error: Invalid webhook URL format'']])"
    if "\<not> accepts host_checks argv"
    using that by (rule register_main_argument_error)
  have r: "set remediation \<inter> set (snd (register_main host_checks argv None srv)) = {}"
    if "\<not> accepts host_checks argv"
    using n [OF that] by (auto simp: remediation_def usage_def)
  have e: "exit_status (fst (register_main host_checks argv None srv)) \<noteq> 0 \<and>
        http_calls (snd (register_main host_checks argv None srv)) = []"
  proof (cases "accepts host_checks argv")
    case True
    then show ?thesis by (simp add: a remediation_def)
  next
    case False
    from n [OF this] show ?thesis by (auto simp: usage_def)
  qed
  have d': "exit_status (fst (delete_main None srv)) \<noteq> 0 \<and> http_calls (snd (delete_main None srv)) = []"
    by (simp add: d remediation_def)
  from d a n r e d' show ?thesis by blast
qed

text \<open>
  C7, as amended, on an accepted command line and on one that the checks of the URL
  parser reject.
\<close>

theorem missing_credential_exits_with_remediation_witness:
  "accepts refuse_brackets demo_argv \<and>
   \<not> accepts refuse_brackets [''register_webhooks.py'', ''http://[foo]/x''] \<and>
   register_main refuse_brackets demo_argv None demo_registrar =
     (Inl (SystemExit 1),
      [Stdout [Lit ''Monzo Webhook Registration Tool''], Stdout [Lit rule50],
       Stdout [Lit ''Webhook URL: '', Lit (demo_argv ! 1)]] @ remediation) \<and>
   register_main refuse_brackets [''register_webhooks.py'', ''http://[foo]/x''] None demo_registrar =
     (Inl (SystemExit 1),
      [Stderr [Lit ''Error: Invalid webhook URL: '',
               Lit ''does not appear to be an IPv4 or IPv6 address'']]) \<and>
   set remediation \<inter>
     set (snd (register_main refuse_brackets [''register_webhooks.py'', ''http://[foo]/x''] None
                 demo_registrar)) = {}"
proof -
  have "accepts refuse_brackets demo_argv"
    "\<not> accepts refuse_brackets [''register_webhooks.py'', ''http://[foo]/x'']"
    "register_main refuse_brackets [''register_webhooks.py'', ''http://[foo]/x''] None demo_registrar =
     (Inl (SystemExit 1),
      [Stderr [Lit ''Error: Invalid webhook URL: '',
               Lit ''does not appear to be an IPv4 or IPv6 address'']])"
    by code_simp+
  with missing_credential_exits_with_remediation [of demo_registrar refuse_brackets demo_argv]
    missing_credential_exits_with_remediation
      [of demo_registrar refuse_brackets "[''register_webhooks.py'', ''http://[foo]/x'']"]
  show ?thesis by blast
qed

text \<open>
  C7 as stated fails: the registration script called with the URL \<^verbatim>\<open>https://\<close> and no
  credential prints the URL error only, and no line of the remediation text.
\<close>

theorem missing_credential_with_bad_url_prints_no_remediation:
  "register_main refuse_brackets [''register_webhooks.py'', ''https://''] None demo_registrar =
     (Inl (SystemExit 1), [Stderr [Lit ''Error: Invalid webhook URL format'']]) \<and>
   set remediation \<inter>
     set (snd (register_main refuse_brackets [''register_webhooks.py'', ''https://''] None demo_registrar)) = {}"
  by code_simp

subsection \<open>C8\<close>

text \<open>
  C8, as amended. \<^verbatim>\<open>register_webhook\<close> sends exactly one request. When the reply is a
  response whose status is not from 400 to 599 and whose body decodes, it returns the
  whole decoded body (\<^verbatim>\<open>main\<close> reads the webhook id from it). Otherwise it returns
  \<^verbatim>\<open>None\<close> after logging the error, followed by the response body when the exception
  carries a response: always for an HTTP error status, never for a body that does not
  decode, and for an exception of the transport when it has one.
\<close>

theorem register_webhook_returns_body_or_none:
  "r = srv (length (http_calls s)) (register_request tok account_id webhook_url) \<longrightarrow>
   (r = Responds resp \<and> \<not> (400 \<le> status_code resp \<and> status_code resp < 600) \<and>
    json_body resp = Some j \<longrightarrow>
      register_webhook srv tok account_id webhook_url s =
        (j, s @ [Http (register_request tok account_id webhook_url) r])) \<and>
   (r = Responds resp \<and> 400 \<le> status_code resp \<and> status_code resp < 600 \<longrightarrow>
      register_webhook srv tok account_id webhook_url s =
        (JNull,
         s @ [Http (register_request tok account_id webhook_url) r,
              Stderr [Lit ''Error registering webhook for account '', Val account_id, Lit '': '',
                      Exc (HTTPError resp)],
              Stderr [Lit ''Response: '', Lit (text_body resp)]])) \<and>
   (r = Responds resp \<and> \<not> (400 \<le> status_code resp \<and> status_code resp < 600) \<and>
    json_body resp = None \<longrightarrow>
      register_webhook srv tok account_id webhook_url s =
        (JNull,
         s @ [Http (register_request tok account_id webhook_url) r,
              Stderr [Lit ''Error registering webhook for account '', Val account_id, Lit '': '',
                      Exc (JSONDecodeError resp)]])) \<and>
   (r = Fails m None \<longrightarrow>
      register_webhook srv tok account_id webhook_url s =
        (JNull,
         s @ [Http (register_request tok account_id webhook_url) r,
              Stderr [Lit ''Error registering webhook for account '', Val account_id, Lit '': '',
                      Exc (TransportError m None)]])) \<and>
   (r = Fails m (Some resp') \<longrightarrow>
      register_webhook srv tok account_id webhook_url s =
        (JNull,
         s @ [Http (register_request tok account_id webhook_url) r,
              Stderr [Lit ''Error registering webhook for account '', Val account_id, Lit '': '',
                      Exc (TransportError m (Some resp'))],
              Stderr [Lit ''Response: '', Lit (text_body resp')]])) \<and>
   length (http_calls (snd (register_webhook srv tok account_id webhook_url s))) =
     length (http_calls s) + 1"
  by (auto simp: register_webhook_eq checked_json_def raise_for_status_def response_json_def
        split: sum.splits option.splits reply.splits)

text \<open>C8, as amended, on the refused registration of the example service.\<close>

theorem register_webhook_returns_body_or_none_witness:
  "register_webhook demo_registrar ''token'' (JStr ''acc_3'') ''https://example.com/webhook''
       (replicate 3 (Http (accounts_request None ''token'') (Fails '''' None))) =
     (JNull,
      replicate 3 (Http (accounts_request None ''token'') (Fails '''' None)) @
      [Http (register_request ''token'' (JStr ''acc_3'') ''https://example.com/webhook'')
         (Responds \<lparr>status_code = 403, text_body = ''forbidden'', json_body = None\<rparr>),
       Stderr [Lit ''Error registering webhook for account '', Val (JStr ''acc_3''), Lit '': '',
               Exc (HTTPError \<lparr>status_code = 403, text_body = ''forbidden'', json_body = None\<rparr>)],
       Stderr [Lit ''Response: '', Lit ''forbidden'']])"
proof -
  have a: "length (http_calls (replicate 3 (Http (accounts_request None ''token'') (Fails '''' None)))) = 3"
    by (simp add: numeral_eq_Suc)
  have b: "demo_registrar 3 (register_request ''token'' (JStr ''acc_3'') ''https://example.com/webhook'')
      = Responds \<lparr>status_code = 403, text_body = ''forbidden'', json_body = None\<rparr>"
    by (simp add: demo_registrar_def)
  from register_webhook_returns_body_or_none
    [of "Responds \<lparr>status_code = 403, text_body = ''forbidden'', json_body = None\<rparr>"
        demo_registrar "replicate 3 (Http (accounts_request None ''token'') (Fails '''' None))"
        "''token''" "JStr ''acc_3''" "''https://example.com/webhook''"
        "\<lparr>status_code = 403, text_body = ''forbidden'', json_body = None\<rparr>" JNull "''''"] a b
  show ?thesis by simp
qed

text \<open>
  C8 as stated fails: on success \<^verbatim>\<open>register_webhook\<close> returns the decoded body, not the
  id of the created webhook.
\<close>

theorem register_webhook_returns_the_whole_body:
  "fst (register_webhook
          (always (json_response 200 (JObj [(''webhook'', JObj [(''id'', JStr ''wh_9'')])])))
          ''token'' (JStr ''acc_1'') ''https://example.com/webhook'' []) =
     JObj [(''webhook'', JObj [(''id'', JStr ''wh_9'')])] \<and>
   fst (register_webhook
          (always (json_response 200 (JObj [(''webhook'', JObj [(''id'', JStr ''wh_9'')])])))
          ''token'' (JStr ''acc_1'') ''https://example.com/webhook'' []) \<noteq> JStr ''wh_9''"
  by code_simp

subsection \<open>C9\<close>

text \<open>
  C9, as amended. A credential variable set to the empty string gives the same run as an
  unset one, for both scripts and every command line: same output, same exit status, and
  no HTTP call, so the empty string is never sent as a bearer token. The deletion
  script, and the registration script when its argument check has passed, print the
  remediation text and exit with status 1.
\<close>

theorem empty_credential_is_a_missing_credential:
  "delete_main (Some []) srv = delete_main None srv \<and>
   register_main host_checks argv (Some []) srv = register_main host_checks argv None srv \<and>
   delete_main (Some []) srv =
     (Inl (SystemExit 1),
      [Stdout [Lit ''Monzo Webhook Deletion Tool''], Stdout [Lit rule50]] @ remediation) \<and>
   (accepts host_checks argv \<longrightarrow>
      register_main host_checks argv (Some []) srv =
        (Inl (SystemExit 1),
         [Stdout [Lit ''Monzo Webhook Registration Tool''], Stdout [Lit rule50],
          Stdout [Lit ''Webhook URL: '', Lit (argv ! 1)]] @ remediation)) \<and>
   exit_status (fst (register_main host_checks argv (Some []) srv)) \<noteq> 0 \<and>
   http_calls (snd (delete_main (Some []) srv)) = [] \<and>
   http_calls (snd (register_main host_checks argv (Some []) srv)) = []"
proof -
  have d: "delete_main (Some []) srv = delete_main None srv"
    by (simp add: delete_main_def get_access_token_eq)
  have "register_run u (Some []) srv = register_run u None srv" for u
    by (simp add: register_run_def get_access_token_eq)
  then have r: "register_main host_checks argv (Some []) srv = register_main host_checks argv None srv"
    by (simp add: register_main_def Let_def split: sum.splits)
  have d': "delete_main None srv =
     (Inl (SystemExit 1),
      [Stdout [Lit ''Monzo Webhook Deletion Tool''], Stdout [Lit rule50]] @ remediation)"
    by (simp add: delete_main_def get_access_token_eq)
  have a: "register_main host_checks argv None srv =
        (Inl (SystemExit 1),
         [Stdout [Lit ''Monzo Webhook Registration Tool''], Stdout [Lit rule50],
          Stdout [Lit ''Webhook URL: '', Lit (argv ! 1)]] @ remediation)" if "accepts host_checks argv"
    using that by (simp add: register_main_accepts register_run_def get_access_token_eq)
  have calls: "http_calls m = []" if "list_all is_stderr m" for m
    using that
  proof (induction m)
    case Nil
    then show ?case by simp
  next
    case (Cons e m)
    then show ?case by (cases e) simp_all
  qed
  have "exit_status (fst (register_main host_checks argv None srv)) \<noteq> 0 \<and>
        http_calls (snd (register_main host_checks argv None srv)) = []"
  proof (cases "accepts host_checks argv")
    case True
    then show ?thesis by (simp add: a remediation_def)
  next
    case False
    from register_main_rejects [OF this, of None srv] calls show ?thesis by auto
  qed
  with d r d' a show ?thesis by (simp add: remediation_def)
qed

text \<open>C9, as amended, on an accepted command line.\<close>

theorem empty_credential_is_a_missing_credential_witness:
  "accepts refuse_brackets demo_argv \<and>
   register_main refuse_brackets demo_argv (Some []) demo_registrar =
     (Inl (SystemExit 1),
      [Stdout [Lit ''Monzo Webhook Registration Tool''], Stdout [Lit rule50],
       Stdout [Lit ''Webhook URL: '', Lit (demo_argv ! 1)]] @ remediation)"
proof -
  have "accepts refuse_brackets demo_argv" by code_simp
  with empty_credential_is_a_missing_credential [of demo_registrar refuse_brackets demo_argv]
  show ?thesis by blast
qed

text \<open>
  C9 as stated fails: the registration script called with the URL \<^verbatim>\<open>http://\<close> and an empty
  credential prints the URL error only, and no line of the remediation text.
\<close>

theorem empty_credential_with_bad_url_prints_no_remediation:
  "register_main refuse_brackets [''register_webhooks.py'', ''http://''] (Some []) demo_registrar =
     (Inl (SystemExit 1), [Stderr [Lit ''Error: Invalid webhook URL format'']]) \<and>
   set remediation \<inter>
     set (snd (register_main refuse_brackets [''register_webhooks.py'', ''http://''] (Some []) demo_registrar)) = {}"
  by code_simp

subsection \<open>C10\<close>

text \<open>
  C10, as amended. One pass of the registration loop over an account (a JSON object)
  counts it as registered exactly when the reply is a response whose status is not from
  400 to 599 and whose body decodes to a truthy JSON object whose \<^verbatim>\<open>webhook\<close> member, if
  present, is an object. It counts it as failed exactly when the call raised or the
  decoded body is falsy, so a 2xx reply with the body \<^verbatim>\<open>{}\<close> is a failure. A truthy
  body of another shape ends the run with \<^verbatim>\<open>AttributeError\<close> and neither counter moves.
\<close>

theorem registered_iff_truthy_body:
  "has_get account \<and>
   r = srv (length (http_calls s)) (register_request tok (dict_get account ''id'' JNull) webhook_url)
   \<longrightarrow>
   ((\<exists>s'. register_accounts srv tok webhook_url [account] (registered_count, failed_count) s =
             (Inr (registered_count + 1, failed_count), s')) \<longleftrightarrow>
    (\<exists>resp j. r = Responds resp \<and> \<not> (400 \<le> status_code resp \<and> status_code resp < 600) \<and>
       json_body resp = Some j \<and> truthy j \<and> has_get j \<and>
       has_get (dict_get j ''webhook'' (JObj [])))) \<and>
   ((\<exists>s'. register_accounts srv tok webhook_url [account] (registered_count, failed_count) s =
             (Inr (registered_count, failed_count + 1), s')) \<longleftrightarrow>
    \<not> (\<exists>resp j. r = Responds resp \<and> \<not> (400 \<le> status_code resp \<and> status_code resp < 600) \<and>
         json_body resp = Some j \<and> truthy j)) \<and>
   ((\<exists>s'. register_accounts srv tok webhook_url [account] (registered_count, failed_count) s =
             (Inl (Uncaught ''AttributeError''), s')) \<longleftrightarrow>
    (\<exists>resp j. r = Responds resp \<and> \<not> (400 \<le> status_code resp \<and> status_code resp < 600) \<and>
       json_body resp = Some j \<and> truthy j \<and>
       \<not> (has_get j \<and> has_get (dict_get j ''webhook'' (JObj [])))))"
proof (rule impI)
  assume h: "has_get account \<and>
   r = srv (length (http_calls s)) (register_request tok (dict_get account ''id'' JNull) webhook_url)"
  let ?run = "register_accounts srv tok webhook_url [account] (registered_count, failed_count) s"
  let ?A = "\<exists>resp j. r = Responds resp \<and> \<not> (400 \<le> status_code resp \<and> status_code resp < 600) \<and>
       json_body resp = Some j \<and> truthy j \<and> has_get j \<and>
       has_get (dict_get j ''webhook'' (JObj []))"
  let ?B = "\<exists>resp j. r = Responds resp \<and> \<not> (400 \<le> status_code resp \<and> status_code resp < 600) \<and>
         json_body resp = Some j \<and> truthy j"
  let ?C = "\<exists>resp j. r = Responds resp \<and> \<not> (400 \<le> status_code resp \<and> status_code resp < 600) \<and>
       json_body resp = Some j \<and> truthy j \<and>
       \<not> (has_get j \<and> has_get (dict_get j ''webhook'' (JObj [])))"
  have "((\<exists>s'. ?run = (Inr (registered_count + 1, failed_count), s')) \<longleftrightarrow> ?A) \<and>
        ((\<exists>s'. ?run = (Inr (registered_count, failed_count + 1), s')) \<longleftrightarrow> \<not> ?B) \<and>
        ((\<exists>s'. ?run = (Inl (Uncaught ''AttributeError''), s')) \<longleftrightarrow> ?C)"
  proof (cases "checked_json r")
    case (Inl e)
    have "\<not> ?A" "\<not> ?B" "\<not> ?C"
      using checked_json_no_ex [OF Inl] by blast+
    moreover from h Inl
    have "fst ?run = Inr (registered_count, failed_count + 1)"
      by (simp add: register_webhook_eq Let_def split: option.splits)
    ultimately show ?thesis
      by (cases ?run) auto
  next
    case (Inr j)
    have A: "?A \<longleftrightarrow> truthy j \<and> has_get j \<and> has_get (dict_get j ''webhook'' (JObj []))"
      by (rule checked_json_ex [OF Inr])
    have B: "?B \<longleftrightarrow> truthy j"
      by (rule checked_json_ex [OF Inr])
    have C: "?C \<longleftrightarrow> truthy j \<and> \<not> (has_get j \<and> has_get (dict_get j ''webhook'' (JObj [])))"
      by (rule checked_json_ex [OF Inr])
    from h Inr
    have "fst ?run =
        (if truthy j then
           if has_get j \<and> has_get (dict_get j ''webhook'' (JObj []))
           then Inr (registered_count + 1, failed_count)
           else Inl (Uncaught ''AttributeError'')
         else Inr (registered_count, failed_count + 1))"
      by (simp add: register_webhook_eq Let_def)
    then show ?thesis unfolding A B C
      by (cases ?run) (auto split: if_splits)
  qed
  then show "((\<exists>s'. ?run = (Inr (registered_count + 1, failed_count), s')) \<longleftrightarrow> ?A) \<and>
        ((\<exists>s'. ?run = (Inr (registered_count, failed_count + 1), s')) \<longleftrightarrow> \<not> ?B) \<and>
        ((\<exists>s'. ?run = (Inl (Uncaught ''AttributeError''), s')) \<longleftrightarrow> ?C)" .
qed

text \<open>
  C10, as amended, on the second registration of the example service: status 200 with
  an empty object is counted as failed.
\<close>

theorem registered_iff_truthy_body_witness:
  "has_get (JObj [(''id'', JStr ''acc_2'')]) \<and>
   demo_registrar 2 (register_request ''token'' (JStr ''acc_2'') ''https://example.com/webhook'') =
     json_response 200 (JObj []) \<and>
   \<not> truthy (JObj []) \<and>
   (\<exists>s'. register_accounts demo_registrar ''token'' ''https://example.com/webhook''
            [JObj [(''id'', JStr ''acc_2'')]] (1, 0)
            (replicate 2 (Http (accounts_request None ''token'') (Fails '''' None))) = (Inr (1, 1), s'))"
proof -
  have a: "length (http_calls (replicate 2 (Http (accounts_request None ''token'') (Fails '''' None)))) = 2"
    by (simp add: numeral_eq_Suc)
  have b: "demo_registrar 2 (register_request ''token'' (JStr ''acc_2'') ''https://example.com/webhook'')
      = json_response 200 (JObj [])"
    by (simp add: demo_registrar_def ok_response_def json_response_def)
  have c: "\<not> (\<exists>resp j. json_response 200 (JObj []) = Responds resp \<and>
        \<not> (400 \<le> status_code resp \<and> status_code resp < 600) \<and>
         json_body resp = Some j \<and> truthy j)"
    by (auto simp: json_response_def)
  from registered_iff_truthy_body
    [of "JObj [(''id'', JStr ''acc_2'')]" "json_response 200 (JObj [])" demo_registrar
        "replicate 2 (Http (accounts_request None ''token'') (Fails '''' None))" "''token''"
        "''https://example.com/webhook''" 1 0] a b c
  show ?thesis by simp
qed

text \<open>
  C10 as stated fails in both directions: a reply with status 300 and a truthy body is
  counted as registered, and a reply with status 200 and the truthy body \<^verbatim>\<open>[1]\<close> is not
  counted at all.
\<close>

theorem registered_without_2xx_and_crash_on_truthy_body:
  "status_of (always (json_response 300 (JObj [(''webhook'', JObj [(''id'', JStr ''wh_9'')])])) 0
      (register_request ''token'' (JStr ''acc_1'') ''https://example.com/webhook'')) = Some 300 \<and>
   fst (register_accounts
          (always (json_response 300 (JObj [(''webhook'', JObj [(''id'', JStr ''wh_9'')])])))
          ''token'' ''https://example.com/webhook'' [JObj [(''id'', JStr ''acc_1'')]] (0, 0) []) =
     Inr (1, 0) \<and>
   truthy (JArr [JNum 1]) \<and>
   fst (register_accounts (always (json_response 200 (JArr [JNum 1])))
          ''token'' ''https://example.com/webhook'' [JObj [(''id'', JStr ''acc_1'')]] (0, 0) []) =
     Inl (Uncaught ''AttributeError'')"
  by code_simp

end
